theory Spec2Isabelle
  imports Main "HOL-Library.Word"
begin

section \<open>Common types\<close>

type_synonym byte = "8 word"
type_synonym u32 = "32 word"
type_synonym u64 = "64 word"

text \<open>
  Modelled from the spec: the protobuf enums \<open>sni.AddressSpace\<close> and
  \<open>sni.MemoryMapping\<close> are declared elsewhere in the repository. Section 3 of the
  specification gives their members: address spaces Raw, FxPakPro, SnesABus and mappings
  Unknown, LoROM, HiROM, ExHiROM, SA1.
\<close>

datatype AddressSpace = AddressSpace_FxPakPro | AddressSpace_SnesABus | AddressSpace_Raw

datatype MemoryMapping =
    MemoryMapping_Unknown
  | MemoryMapping_HiROM
  | MemoryMapping_LoROM
  | MemoryMapping_ExHiROM
  | MemoryMapping_SA1

text \<open>\<open>devices.AddressTuple\<close>, with the fields the sources read and write.\<close>

record AddressTuple =
  Address :: u32
  AddressSpace :: AddressSpace
  MemoryMapping :: MemoryMapping

section \<open>devices/snes/mapping/translate.go\<close>

text \<open>
  The four mapping packages (\<open>lorom\<close>, \<open>hirom\<close>, \<open>exhirom\<close>, \<open>sa1rom\<close>) are an
  external module. Each exports \<open>BusAddressToPak\<close> and \<open>PakAddressToBus\<close> of type
  \<open>uint32 -> (uint32, error)\<close>; they are parameters of the model. Their errors are
  values of the external module, so none of them is the package variable
  \<open>ErrUnknownMapping\<close> that \<open>translate.go\<close> creates with \<open>fmt.Errorf\<close>.
\<close>

record 'e mappers =
  lorom_BusAddressToPak :: "u32 \<Rightarrow> 'e + u32"
  lorom_PakAddressToBus :: "u32 \<Rightarrow> 'e + u32"
  hirom_BusAddressToPak :: "u32 \<Rightarrow> 'e + u32"
  hirom_PakAddressToBus :: "u32 \<Rightarrow> 'e + u32"
  exhirom_BusAddressToPak :: "u32 \<Rightarrow> 'e + u32"
  exhirom_PakAddressToBus :: "u32 \<Rightarrow> 'e + u32"
  sa1rom_BusAddressToPak :: "u32 \<Rightarrow> 'e + u32"
  sa1rom_PakAddressToBus :: "u32 \<Rightarrow> 'e + u32"

datatype 'e translate_error = ErrUnknownMapping | MapperError 'e

definition from_mapper :: "'e + u32 \<Rightarrow> 'e translate_error + u32" where
  "from_mapper r = (case r of Inl e \<Rightarrow> Inl (MapperError e) | Inr a \<Rightarrow> Inr a)"

definition TranslateAddress ::
  "'e mappers \<Rightarrow> AddressTuple \<Rightarrow> AddressSpace \<Rightarrow> 'e translate_error + u32" where
  "TranslateAddress M sourceAddress deviceSpace =
     (let address = Address sourceAddress in
      case AddressSpace sourceAddress of
        AddressSpace_Raw \<Rightarrow> Inr address
      | AddressSpace_FxPakPro \<Rightarrow>
          (case deviceSpace of
             AddressSpace_Raw \<Rightarrow> Inr address
           | AddressSpace_FxPakPro \<Rightarrow> Inr address
           | AddressSpace_SnesABus \<Rightarrow>
               (case MemoryMapping sourceAddress of
                  MemoryMapping_LoROM \<Rightarrow> from_mapper (lorom_PakAddressToBus M address)
                | MemoryMapping_HiROM \<Rightarrow> from_mapper (hirom_PakAddressToBus M address)
                | MemoryMapping_ExHiROM \<Rightarrow> from_mapper (exhirom_PakAddressToBus M address)
                | MemoryMapping_SA1 \<Rightarrow> from_mapper (sa1rom_PakAddressToBus M address)
                | MemoryMapping_Unknown \<Rightarrow> Inl ErrUnknownMapping))
      | AddressSpace_SnesABus \<Rightarrow>
          (case deviceSpace of
             AddressSpace_Raw \<Rightarrow> Inr address
           | AddressSpace_SnesABus \<Rightarrow> Inr address
           | AddressSpace_FxPakPro \<Rightarrow>
               (case MemoryMapping sourceAddress of
                  MemoryMapping_LoROM \<Rightarrow> from_mapper (lorom_BusAddressToPak M address)
                | MemoryMapping_HiROM \<Rightarrow> from_mapper (hirom_BusAddressToPak M address)
                | MemoryMapping_ExHiROM \<Rightarrow> from_mapper (exhirom_BusAddressToPak M address)
                | MemoryMapping_SA1 \<Rightarrow> from_mapper (sa1rom_BusAddressToPak M address)
                | MemoryMapping_Unknown \<Rightarrow> Inl ErrUnknownMapping)))"

text \<open>A stand-in for the external mapping module, used where a concrete run is shown.\<close>

definition identity_mappers :: "unit mappers" where
  "identity_mappers =
     \<lparr> lorom_BusAddressToPak = Inr, lorom_PakAddressToBus = Inr,
       hirom_BusAddressToPak = Inr, hirom_PakAddressToBus = Inr,
       exhirom_BusAddressToPak = Inr, exhirom_PakAddressToBus = Inr,
       sa1rom_BusAddressToPak = Inr, sa1rom_PakAddressToBus = Inr \<rparr>"

section \<open>Errors\<close>

text \<open>
  Go errors are values. The standard library's I/O errors that the sources can meet are
  \<open>ioerr\<close>; \<open>NetError timeout wraps_closed\<close> is an error of package \<open>net\<close> whose
  \<open>Timeout()\<close> is the first flag and which wraps \<open>net.ErrClosed\<close> when the second
  flag is set.
\<close>

datatype ioerr = EOF | ErrUnexpectedEOF | ErrClosed | NetError bool bool

datatype grpc_code = InvalidArgument

text \<open>
  One constructor for each place where the sources build an error text, with the values
  that the text is formatted from.
\<close>

datatype message =
    DomainTypeMustBeSNES
  | DomainNameMustBeNonNil
  | InvalidDomainName string
  | InvalidDomainType
  | StartAddressExceeds u32 "string option" u32
  | EndAddressExceeds u32 "string option" u32
  | ReplyBadStart char
  | ReplyError string
  | ExpectingBinaryReply
  | MissingPlatformsConfig
  | NoCoreMatch string string string
  | PlatformNotFound string
  | BadMemorySize string
  | UnmappedCoreMemory string
  | LsNoUSBAHeader
  | LsResponseSize u32
  | LsWrongOpcode byte
  | LsFailed string byte
  | LsInvalidPacketFormat
  | LsMalformedPacket
  | AlreadyConnected string

text \<open>
  \<open>Fatal\<close> and \<open>NonFatal\<close> are \<open>devices.DeviceFatal\<close> and
  \<open>devices.DeviceNonFatal\<close> around a cause, \<open>Status\<close> is \<open>status.Errorf\<close>,
  \<open>Errorf\<close> is \<open>fmt.Errorf\<close>, and \<open>Panic\<close> is a run-time panic of the Go program
  (a nil dereference, an index out of range, a negative length).
\<close>

datatype err =
    IO ioerr
  | Status grpc_code message
  | Errorf message
  | Fatal err
  | NonFatal err
  | Panic

section \<open>FX Pak Pro: the static memory domain table\<close>

datatype MemoryDomainTypeSNES =
    SNESCoreSpecificMemory
  | SNESCartROM
  | SNESCartRAM
  | SNESWorkRAM
  | SNESAPURAM
  | SNESVideoRAM
  | SNESCGRAM
  | SNESObjectAttributeMemory

text \<open>
  The \<open>Type\<close> field of \<open>sni.MemoryDomainRef\<close> is a protobuf oneof. The sources assert
  it to \<open>*sni.MemoryDomainRef_Snes\<close> and handle a failed assertion, so every other
  alternative (and nil) is one constructor here.
\<close>

datatype MemoryDomainRefType = MemoryDomainRef_Snes MemoryDomainTypeSNES | MemoryDomainRef_notSnes

record MemoryDomainRef =
  ref_Name :: "string option"
  ref_Type :: MemoryDomainRefType

record domainDesc =
  domainRef :: MemoryDomainRef
  notes_desc :: string
  start_desc :: u32
  size_desc :: u32
  writeable :: bool

definition domainRefs :: "MemoryDomainRefType list" where
  "domainRefs =
     [ MemoryDomainRef_Snes SNESCoreSpecificMemory,
       MemoryDomainRef_Snes SNESCartROM,
       MemoryDomainRef_Snes SNESCartRAM,
       MemoryDomainRef_Snes SNESWorkRAM,
       MemoryDomainRef_Snes SNESAPURAM,
       MemoryDomainRef_Snes SNESVideoRAM,
       MemoryDomainRef_Snes SNESCGRAM,
       MemoryDomainRef_Snes SNESObjectAttributeMemory ]"

text \<open>A field that a Go composite literal leaves out has its zero value.\<close>

definition domainDescs :: "domainDesc list" where
  "domainDescs =
     [ \<lparr> domainRef = \<lparr> ref_Name = Some ''CARTROM'', ref_Type = domainRefs ! 1 \<rparr>,
         notes_desc = ''Cartridge ROM'',
         start_desc = 0, size_desc = 0xE00000, writeable = True \<rparr>,
       \<lparr> domainRef = \<lparr> ref_Name = Some ''CARTRAM'', ref_Type = domainRefs ! 2 \<rparr>,
         notes_desc = ''Cartridge battery-backed RAM aka SRAM'',
         start_desc = 0xE00000, size_desc = 0x100000, writeable = True \<rparr>,
       \<lparr> domainRef = \<lparr> ref_Name = Some ''WRAM'', ref_Type = domainRefs ! 3 \<rparr>,
         notes_desc = ''Console Work RAM'',
         start_desc = 0xF50000, size_desc = 0x020000, writeable = False \<rparr>,
       \<lparr> domainRef = \<lparr> ref_Name = Some ''APURAM'', ref_Type = domainRefs ! 4 \<rparr>,
         notes_desc = ''Console APU RAM'',
         start_desc = 0xF80000, size_desc = 0x010000, writeable = False \<rparr>,
       \<lparr> domainRef = \<lparr> ref_Name = Some ''VRAM'', ref_Type = domainRefs ! 5 \<rparr>,
         notes_desc = ''Console Video RAM'',
         start_desc = 0xF70000, size_desc = 0x010000, writeable = False \<rparr>,
       \<lparr> domainRef = \<lparr> ref_Name = Some ''CGRAM'', ref_Type = domainRefs ! 6 \<rparr>,
         notes_desc = ''Console Video Palette RAM'',
         start_desc = 0xF90000, size_desc = 0x0200, writeable = False \<rparr>,
       \<lparr> domainRef = \<lparr> ref_Name = Some ''OAM'', ref_Type = domainRefs ! 7 \<rparr>,
         notes_desc = ''Console Object Attribute Memory'',
         start_desc = 0xF90200, size_desc = 0x0420 - 0x0200, writeable = False \<rparr>,
       \<lparr> domainRef = \<lparr> ref_Name = Some ''FXPAKPRO_SNES'', ref_Type = domainRefs ! 0 \<rparr>,
         notes_desc = ''Entire FX Pak Pro address space for SNES space'',
         start_desc = 0, size_desc = 0x1000000, writeable = True \<rparr>,
       \<lparr> domainRef = \<lparr> ref_Name = Some ''FXPAKPRO_CMD'', ref_Type = domainRefs ! 0 \<rparr>,
         notes_desc = ''Entire FX Pak Pro address space for CMD space'',
         start_desc = 0x1000000, size_desc = 0x1000000, writeable = True \<rparr> ]"

definition driverName :: string where
  "driverName = ''fxpakpro''"

text \<open>\<open>sni.MemoryDomain\<close> as the FX Pak Pro driver fills it.\<close>

record MemoryDomain =
  md_Core :: string
  md_Domain :: MemoryDomainRef
  md_Notes :: string
  md_Size :: u32
  md_Readable :: bool
  md_Writeable :: bool

text \<open>
  The package's \<open>init\<close> runs once over \<open>domainDescs\<close> and fills the list
  \<open>domains\<close> and the two lookup maps; a later entry with the same key replaces an
  earlier one.
\<close>

definition domains :: "MemoryDomain list" where
  "domains =
     map (\<lambda>d. \<lparr> md_Core = driverName, md_Domain = domainRef d, md_Notes = notes_desc d,
                md_Size = size_desc d, md_Readable = True, md_Writeable = writeable d \<rparr>)
         domainDescs"

definition domainDescByType :: "MemoryDomainTypeSNES \<rightharpoonup> domainDesc" where
  "domainDescByType =
     fold (\<lambda>d m. case ref_Type (domainRef d) of
                    MemoryDomainRef_Snes t \<Rightarrow> m(t \<mapsto> d)
                  | MemoryDomainRef_notSnes \<Rightarrow> m)
          domainDescs Map.empty"

definition domainDescByName :: "string \<rightharpoonup> domainDesc" where
  "domainDescByName =
     fold (\<lambda>d m. case ref_Name (domainRef d) of Some n \<Rightarrow> m(n \<mapsto> d) | None \<Rightarrow> m)
          domainDescs Map.empty"

record MemoryDomainsRequest =
  mdreq_Uri :: string

record MemoryDomainsResponse =
  mdrsp_Uri :: string
  mdrsp_Domains :: "MemoryDomain list"

text \<open>
  \<open>(d *Device) MemoryDomains\<close>: the device \<open>d\<close> is not read, and the error result
  stays nil.
\<close>

definition MemoryDomains :: "'dev \<Rightarrow> MemoryDomainsRequest \<Rightarrow> MemoryDomainsResponse" where
  "MemoryDomains d request = \<lparr> mdrsp_Uri = mdreq_Uri request, mdrsp_Domains = domains \<rparr>"

section \<open>FX Pak Pro: MultiDomainRead and MultiDomainWrite\<close>

record MemoryReadRequest =
  rr_RequestAddress :: AddressTuple
  rr_Size :: int

record MemoryReadResponse =
  rs_RequestAddress :: AddressTuple
  rs_DeviceAddress :: AddressTuple
  rs_Data :: "byte list"

record MemoryWriteRequest =
  wr_RequestAddress :: AddressTuple
  wr_Data :: "byte list"

record MemoryWriteResponse =
  ws_RequestAddress :: AddressTuple
  ws_DeviceAddress :: AddressTuple
  ws_Size :: int

text \<open>Request and response messages; addresses and sizes are \<open>uint32\<close> fields.\<close>

record MemoryDomainAddressSize =
  as_Address :: u32
  as_Size :: u32

record MemoryDomainAddressData =
  ad_Address :: u32
  ad_Data :: "byte list option"

record MemoryDomainAddressWrite =
  aw_Address :: u32
  aw_Data :: "byte list"

record GroupedDomainReadRequests =
  grq_Domain :: "MemoryDomainRef option"
  grq_Reads :: "MemoryDomainAddressSize list"

record GroupedDomainReadResponses =
  grs_Domain :: MemoryDomainRef
  grs_Reads :: "MemoryDomainAddressData list"

record GroupedDomainWriteRequests =
  gwq_Domain :: "MemoryDomainRef option"
  gwq_Writes :: "MemoryDomainAddressWrite list"

record GroupedDomainWriteResponses =
  gws_Domain :: MemoryDomainRef
  gws_Writes :: "MemoryDomainAddressSize list"

text \<open>
  The lookup of the domain description at the head of both loops. \<open>ToUpper\<close> is
  \<open>strings.ToUpper\<close> of the Go library, a parameter. A request without a
  \<open>Domain\<close> message dereferences nil.
\<close>

definition lookupDomain :: "(string \<Rightarrow> string) \<Rightarrow> MemoryDomainRef option \<Rightarrow> err + domainDesc" where
  "lookupDomain ToUpper dref =
     (case dref of
        None \<Rightarrow> Inl Panic
      | Some r \<Rightarrow>
          (case ref_Type r of
             MemoryDomainRef_notSnes \<Rightarrow> Inl (Status InvalidArgument DomainTypeMustBeSNES)
           | MemoryDomainRef_Snes t \<Rightarrow>
               if t = SNESCoreSpecificMemory then
                 (case ref_Name r of
                    None \<Rightarrow> Inl (Status InvalidArgument DomainNameMustBeNonNil)
                  | Some n \<Rightarrow>
                      (let domainName = ToUpper n in
                       case domainDescByName domainName of
                         None \<Rightarrow> Inl (Status InvalidArgument (InvalidDomainName domainName))
                       | Some dm \<Rightarrow> Inr dm))
               else
                 (case domainDescByType t of
                    None \<Rightarrow> Inl (Status InvalidArgument InvalidDomainType)
                  | Some dm \<Rightarrow> Inr dm)))"

text \<open>
  The inner loop of \<open>MultiDomainRead\<close> over the reads of one group. The comparisons and
  the sum \<open>read.Address+read.Size\<close> are \<open>uint32\<close> operations: the sum wraps around.
\<close>

fun checkReads ::
  "domainDesc \<Rightarrow> MemoryDomainAddressSize list \<Rightarrow>
   err + (MemoryReadRequest list \<times> MemoryDomainAddressData list)" where
  "checkReads dm [] = Inr ([], [])"
| "checkReads dm (read # reads) =
     (if as_Address read \<ge> size_desc dm then
        Inl (Status InvalidArgument
              (StartAddressExceeds (as_Address read) (ref_Name (domainRef dm)) (size_desc dm)))
      else if as_Address read + as_Size read > size_desc dm then
        Inl (Status InvalidArgument
              (EndAddressExceeds (as_Address read + as_Size read) (ref_Name (domainRef dm))
                 (size_desc dm)))
      else
        (case checkReads dm reads of
           Inl e \<Rightarrow> Inl e
         | Inr (mreqs, addressDatas) \<Rightarrow>
             Inr (\<lparr> rr_RequestAddress =
                      \<lparr> Address = start_desc dm + as_Address read,
                        AddressSpace = AddressSpace_FxPakPro,
                        MemoryMapping = MemoryMapping_Unknown \<rparr>,
                    rr_Size = uint (as_Size read) \<rparr> # mreqs,
                  \<lparr> ad_Address = as_Address read, ad_Data = None \<rparr> # addressDatas)))"

text \<open>The outer loop over the groups of the request.\<close>

fun domainReadGroups ::
  "(string \<Rightarrow> string) \<Rightarrow> GroupedDomainReadRequests list \<Rightarrow>
   err + (MemoryReadRequest list \<times> GroupedDomainReadResponses list)" where
  "domainReadGroups ToUpper [] = Inr ([], [])"
| "domainReadGroups ToUpper (domainReqs # rest) =
     (case lookupDomain ToUpper (grq_Domain domainReqs) of
        Inl e \<Rightarrow> Inl e
      | Inr dm \<Rightarrow>
          (case checkReads dm (grq_Reads domainReqs) of
             Inl e \<Rightarrow> Inl e
           | Inr (mreqs, addressDatas) \<Rightarrow>
               (case domainReadGroups ToUpper rest of
                  Inl e \<Rightarrow> Inl e
                | Inr (mreqs', rsps) \<Rightarrow>
                    Inr (mreqs @ mreqs',
                         \<lparr> grs_Domain = domainRef dm, grs_Reads = addressDatas \<rparr> # rsps))))"

text \<open>
  The last loop stores \<open>mrsp[k].Data\<close> in the \<open>k\<close>-th address-data record, counted
  across the groups. More responses than records is an index out of range.
\<close>

fun fillReads ::
  "MemoryDomainAddressData list \<Rightarrow> byte list list \<Rightarrow>
   MemoryDomainAddressData list \<times> byte list list" where
  "fillReads [] ds = ([], ds)"
| "fillReads (a # as) [] = (a # as, [])"
| "fillReads (a # as) (d # ds) =
     (case fillReads as ds of (as', ds') \<Rightarrow> (a\<lparr> ad_Data := Some d \<rparr> # as', ds'))"

fun fillGroups ::
  "GroupedDomainReadResponses list \<Rightarrow> byte list list \<Rightarrow>
   GroupedDomainReadResponses list \<times> byte list list" where
  "fillGroups [] ds = ([], ds)"
| "fillGroups (g # gs) ds =
     (case fillReads (grs_Reads g) ds of
        (rs, ds') \<Rightarrow>
          (case fillGroups gs ds' of (gs', ds'') \<Rightarrow> (g\<lparr> grs_Reads := rs \<rparr> # gs', ds'')))"

text \<open>
  \<open>(d *Device) MultiDomainRead\<close>. The device's \<open>MultiReadMemory\<close> is the parameter
  \<open>mrm\<close>; the second component of the result lists the calls made to it, each with its
  arguments.
\<close>

definition MultiDomainRead ::
  "(string \<Rightarrow> string) \<Rightarrow> (MemoryReadRequest list \<Rightarrow> err + MemoryReadResponse list) \<Rightarrow>
   GroupedDomainReadRequests list \<Rightarrow>
   (err + GroupedDomainReadResponses list) \<times> MemoryReadRequest list list" where
  "MultiDomainRead ToUpper mrm requests =
     (case domainReadGroups ToUpper requests of
        Inl e \<Rightarrow> (Inl e, [])
      | Inr (mreqs, rsps) \<Rightarrow>
          (case mrm mreqs of
             Inl e \<Rightarrow> (Inl e, [mreqs])
           | Inr mrsp \<Rightarrow>
               (case fillGroups rsps (map rs_Data mrsp) of
                  (rsps', left) \<Rightarrow>
                    (if left = [] then Inr rsps' else Inl Panic, [mreqs]))))"

text \<open>
  The inner loop of \<open>MultiDomainWrite\<close>; \<open>size := uint32(len(write.Data))\<close> keeps the
  low 32 bits of the length.
\<close>

fun checkWrites ::
  "domainDesc \<Rightarrow> MemoryDomainAddressWrite list \<Rightarrow>
   err + (MemoryWriteRequest list \<times> MemoryDomainAddressSize list)" where
  "checkWrites dm [] = Inr ([], [])"
| "checkWrites dm (write # writes) =
     (if aw_Address write \<ge> size_desc dm then
        Inl (Status InvalidArgument
              (StartAddressExceeds (aw_Address write) (ref_Name (domainRef dm)) (size_desc dm)))
      else
        (let sz = (word_of_nat (length (aw_Data write)) :: u32) in
         if aw_Address write + sz > size_desc dm then
           Inl (Status InvalidArgument
                 (EndAddressExceeds (aw_Address write + sz) (ref_Name (domainRef dm))
                    (size_desc dm)))
         else
           (case checkWrites dm writes of
              Inl e \<Rightarrow> Inl e
            | Inr (mreqs, addressSizes) \<Rightarrow>
                Inr (\<lparr> wr_RequestAddress =
                         \<lparr> Address = start_desc dm + aw_Address write,
                           AddressSpace = AddressSpace_FxPakPro,
                           MemoryMapping = MemoryMapping_Unknown \<rparr>,
                       wr_Data = aw_Data write \<rparr> # mreqs,
                     \<lparr> as_Address = aw_Address write, as_Size = sz \<rparr> # addressSizes))))"

fun domainWriteGroups ::
  "(string \<Rightarrow> string) \<Rightarrow> GroupedDomainWriteRequests list \<Rightarrow>
   err + (MemoryWriteRequest list \<times> GroupedDomainWriteResponses list)" where
  "domainWriteGroups ToUpper [] = Inr ([], [])"
| "domainWriteGroups ToUpper (domainReqs # rest) =
     (case lookupDomain ToUpper (gwq_Domain domainReqs) of
        Inl e \<Rightarrow> Inl e
      | Inr dm \<Rightarrow>
          (case checkWrites dm (gwq_Writes domainReqs) of
             Inl e \<Rightarrow> Inl e
           | Inr (mreqs, addressSizes) \<Rightarrow>
               (case domainWriteGroups ToUpper rest of
                  Inl e \<Rightarrow> Inl e
                | Inr (mreqs', rsps) \<Rightarrow>
                    Inr (mreqs @ mreqs',
                         \<lparr> gws_Domain = domainRef dm, gws_Writes = addressSizes \<rparr> # rsps))))"

text \<open>
  \<open>(d *Device) MultiDomainWrite\<close>, with the device's \<open>MultiWriteMemory\<close> as the
  parameter \<open>mwm\<close>; its responses are dropped.
\<close>

definition MultiDomainWrite ::
  "(string \<Rightarrow> string) \<Rightarrow> (MemoryWriteRequest list \<Rightarrow> err + MemoryWriteResponse list) \<Rightarrow>
   GroupedDomainWriteRequests list \<Rightarrow>
   (err + GroupedDomainWriteResponses list) \<times> MemoryWriteRequest list list" where
  "MultiDomainWrite ToUpper mwm requests =
     (case domainWriteGroups ToUpper requests of
        Inl e \<Rightarrow> (Inl e, [])
      | Inr (mreqs, rsps) \<Rightarrow>
          (case mwm mreqs of
             Inl e \<Rightarrow> (Inl e, [mreqs])
           | Inr mrsp \<Rightarrow> (Inr rsps, [mreqs])))"

section \<open>NWA client: the reply parser\<close>

text \<open>
  A byte of the connection is a \<open>char\<close>; a Go string is a sequence of bytes. The
  line feed, carriage return and zero bytes have no printable literal.
\<close>

abbreviation LF :: char where "LF \<equiv> CHR 0x0A"
abbreviation CR :: char where "CR \<equiv> CHR 0x0D"
abbreviation NUL :: char where "NUL \<equiv> CHR 0x00"

text \<open>
  \<open>bufio.Scanner\<close> with its default split function \<open>bufio.ScanLines\<close>: a token is a
  line without its end-of-line marker, which is one optional carriage return and one
  line feed; what is left without a line feed when the reader fails is a last token if it
  is not empty. The scanner's buffer holds at most \<open>MaxScanTokenSize\<close> bytes: when that
  many bytes hold no line feed the scan stops. \<open>scanTokens line data\<close> is the list of
  the texts that the successive calls of \<open>Scan\<close> deliver, for the bytes \<open>data\<close> that the
  reader still delivers and the bytes \<open>line\<close> already buffered for the current line.
\<close>

definition MaxScanTokenSize :: nat where
  "MaxScanTokenSize = 64 * 1024"

definition dropCR :: "string \<Rightarrow> string" where
  "dropCR data = (if data \<noteq> [] \<and> last data = CR then butlast data else data)"

fun scanTokens :: "string \<Rightarrow> string \<Rightarrow> string list" where
  "scanTokens line [] = (if line = [] then [] else [dropCR line])"
| "scanTokens line (c # cs) =
     (if c = LF then dropCR line # scanTokens [] cs
      else if MaxScanTokenSize \<le> length line + 1 then []
      else scanTokens (line @ [c]) cs)"

text \<open>\<open>strings.SplitN(l, ":", 2)\<close>: at most two parts, cut at the first colon.\<close>

definition SplitN_colon_2 :: "string \<Rightarrow> string list" where
  "SplitN_colon_2 l =
     (if CHR '':'' \<in> set l
      then [takeWhile (\<lambda>c. c \<noteq> CHR '':'') l, tl (dropWhile (\<lambda>c. c \<noteq> CHR '':'') l)]
      else [l])"

text \<open>The \<open>key\<close> and \<open>value\<close> variables of the loop body of \<open>parseResponse\<close>.\<close>

definition lineKey :: "string \<Rightarrow> string" where
  "lineKey l = SplitN_colon_2 l ! 0"

definition lineValue :: "string \<Rightarrow> string" where
  "lineValue l = (let pair = SplitN_colon_2 l in if 2 \<le> length pair then pair ! 1 else [])"

type_synonym item = "string \<rightharpoonup> string"

text \<open>
  The loop \<open>for s.Scan()\<close> of \<open>parseResponse\<close> over the scanner's tokens, with the
  variables \<open>ascii\<close> and \<open>item\<close> as arguments and result. An empty line leaves the
  loop.
\<close>

fun scanLoop :: "string list \<Rightarrow> item list \<Rightarrow> item \<Rightarrow> item list \<times> item" where
  "scanLoop [] ascii item = (ascii, item)"
| "scanLoop (l # ls) ascii item =
     (if l = [] then (ascii, item)
      else if item (lineKey l) \<noteq> None
        then scanLoop ls (ascii @ [item]) (Map.empty(lineKey l \<mapsto> lineValue l))
        else scanLoop ls ascii (item(lineKey l \<mapsto> lineValue l)))"

text \<open>
  The ASCII branch of \<open>parseResponse\<close>, from the creation of the scanner to the return:
  \<open>body\<close> is what the reader delivers after the first byte of the reply, and
  \<open>appendLast\<close> is the statement after the loop, which appends a last item that is not
  empty.
\<close>

definition appendLast :: "item list \<times> item \<Rightarrow> item list" where
  "appendLast st = (case st of (ascii, item) \<Rightarrow> if item \<noteq> Map.empty then ascii @ [item] else ascii)"

definition parseAscii :: "string \<Rightarrow> item list" where
  "parseAscii body = appendLast (scanLoop (scanTokens [] body) [] Map.empty)"

datatype reply = Bin "byte list" | Ascii "item list"

text \<open>
  \<open>io.ReadFull\<close> for \<open>n\<close> bytes from a reader that delivers \<open>data\<close> and then fails
  with \<open>eof\<close>: the bytes read and the rest, or the error.
\<close>

definition ReadFull :: "nat \<Rightarrow> string \<Rightarrow> ioerr \<Rightarrow> ioerr + (string \<times> string)" where
  "ReadFull n data eof =
     (if n \<le> length data then Inr (take n data, drop n data)
      else Inl (if data = [] then eof else if eof = EOF then ErrUnexpectedEOF else eof))"

definition binary_Read_uint32 :: "string \<Rightarrow> nat" where
  "binary_Read_uint32 bs = foldl (\<lambda>n c. n * 256 + of_char c) 0 bs"

text \<open>
  \<open>parseResponse\<close> on a reader that delivers the bytes \<open>input\<close> and then fails with
  \<open>eof\<close> (\<open>io.EOF\<close> of a closed connection, or the time-out of the read deadline).
\<close>

definition parseResponse :: "string \<Rightarrow> ioerr \<Rightarrow> err + reply" where
  "parseResponse input eof =
     (case input of
        [] \<Rightarrow> Inl (Fatal (IO eof))
      | d # rest \<Rightarrow>
          if d = NUL then
            (case ReadFull 4 rest eof of
               Inl e \<Rightarrow> Inl (Fatal (IO e))
             | Inr (sizeBytes, rest') \<Rightarrow>
                 (case ReadFull (binary_Read_uint32 sizeBytes) rest' eof of
                    Inl e \<Rightarrow> Inl (Fatal (IO e))
                  | Inr (bin, rest'') \<Rightarrow> Inr (Bin (map of_char bin))))
          else if d \<noteq> LF then Inl (Errorf (ReplyBadStart d))
          else Inr (Ascii (parseAscii rest)))"

section \<open>udpclient/udpclient.go\<close>

text \<open>
  The client's fields. \<open>udp_c\<close> is the pointer \<open>c\<close> to the connection (\<open>None\<close> is
  nil; a connection is named by a number), \<open>udp_addr\<close> the server address. The mutex
  \<open>seqLock\<close> has no part in a sequential run and is left out.
\<close>

record UDPClient =
  udp_name :: string
  udp_c :: "nat option"
  udp_addr :: "string option"
  muteLog :: bool
  isConnected :: bool
  isClosed :: bool

text \<open>
  What the operating system answers to the socket calls made during one call of a method:
  the error of \<open>SetWriteDeadline\<close>, of \<open>Write\<close>, of \<open>SetReadDeadline\<close>, the datagram
  or error of \<open>ReadFromUDP\<close>, the error of \<open>Close\<close>, and the connection or error of
  \<open>net.DialUDP\<close>.
\<close>

record sockets =
  SetWriteDeadline_result :: "ioerr option"
  Write_result :: "ioerr option"
  SetReadDeadline_result :: "ioerr option"
  ReadFromUDP_result :: "ioerr + byte list"
  Close_result :: "ioerr option"
  DialUDP_result :: "ioerr + nat"

text \<open>The socket calls that a method makes, in order.\<close>

datatype sock_call =
    SetWriteDeadline nat
  | Write "byte list"
  | SetReadDeadline nat
  | ReadFromUDP
  | CloseConn
  | DialUDP string

text \<open>A method returns, or the program panics on a nil connection.\<close>

datatype 'a outcome = Return 'a | Panicked

definition NewUDPClient :: "string \<Rightarrow> UDPClient" where
  "NewUDPClient name =
     \<lparr> udp_name = name, udp_c = None, udp_addr = None, muteLog = False,
       isConnected = False, isClosed = False \<rparr>"

definition MakeUDPClient :: "string \<Rightarrow> UDPClient \<Rightarrow> UDPClient" where
  "MakeUDPClient name c = c\<lparr> udp_name := name \<rparr>"

definition MuteLog :: "bool \<Rightarrow> UDPClient \<Rightarrow> UDPClient" where
  "MuteLog muted c = c\<lparr> muteLog := muted \<rparr>"

text \<open>
  \<open>isTimeoutError\<close>: the error is a \<open>net.Error\<close> and its \<open>Timeout()\<close> holds.
  \<open>errors.Is(err, net.ErrClosed)\<close>: the error is \<open>net.ErrClosed\<close> or wraps it.
\<close>

fun isTimeoutError :: "ioerr \<Rightarrow> bool" where
  "isTimeoutError (NetError timeout wraps_closed) = timeout"
| "isTimeoutError e = False"

fun Is_ErrClosed :: "ioerr \<Rightarrow> bool" where
  "Is_ErrClosed ErrClosed = True"
| "Is_ErrClosed (NetError timeout wraps_closed) = wraps_closed"
| "Is_ErrClosed e = False"

definition Close :: "sockets \<Rightarrow> UDPClient \<Rightarrow> ioerr option \<times> UDPClient \<times> sock_call list" where
  "Close os c =
     (if \<not> isConnected c then (None, c, [])
      else
        (case (if udp_c c \<noteq> None then (Close_result os, [CloseConn]) else (None, [])) of
           (e, calls) \<Rightarrow>
             (e, c\<lparr> isClosed := True, isConnected := False, udp_c := None \<rparr>, calls)))"

text \<open>The two conditional calls \<open>_ = c.Close()\<close> after a failed read or write.\<close>

definition closeOnFailure :: "sockets \<Rightarrow> ioerr \<Rightarrow> UDPClient \<Rightarrow> UDPClient \<times> sock_call list" where
  "closeOnFailure os e c =
     (case (if isTimeoutError e then (case Close os c of (r, c', calls) \<Rightarrow> (c', calls)) else (c, [])) of
        (c1, calls1) \<Rightarrow>
          (case (if Is_ErrClosed e then (case Close os c1 of (r, c', calls) \<Rightarrow> (c', calls))
                 else (c1, [])) of
             (c2, calls2) \<Rightarrow> (c2, calls1 @ calls2)))"

definition WriteWithDeadline ::
  "sockets \<Rightarrow> byte list \<Rightarrow> nat \<Rightarrow> UDPClient \<Rightarrow>
   ioerr option outcome \<times> UDPClient \<times> sock_call list" where
  "WriteWithDeadline os m deadline c =
     (if isClosed c then (Return (Some ErrClosed), c, [])
      else if udp_c c = None then (Panicked, c, [])
      else
        (case SetWriteDeadline_result os of
           Some e \<Rightarrow> (Return (Some e), c, [SetWriteDeadline deadline])
         | None \<Rightarrow>
             (case Write_result os of
                Some e \<Rightarrow>
                  (case closeOnFailure os e c of
                     (c', calls) \<Rightarrow>
                       (Return (Some e), c', [SetWriteDeadline deadline, Write m] @ calls))
              | None \<Rightarrow> (Return None, c, [SetWriteDeadline deadline, Write m]))))"

text \<open>The buffer of \<open>ReadWithDeadline\<close> has 65536 bytes; a longer datagram is cut.\<close>

definition ReadWithDeadline ::
  "sockets \<Rightarrow> nat \<Rightarrow> UDPClient \<Rightarrow>
   (ioerr + byte list) outcome \<times> UDPClient \<times> sock_call list" where
  "ReadWithDeadline os deadline c =
     (if isClosed c then (Return (Inl ErrClosed), c, [])
      else if udp_c c = None then (Panicked, c, [])
      else
        (case SetReadDeadline_result os of
           Some e \<Rightarrow> (Return (Inl e), c, [SetReadDeadline deadline])
         | None \<Rightarrow>
             (case ReadFromUDP_result os of
                Inl e \<Rightarrow>
                  (case closeOnFailure os e c of
                     (c', calls) \<Rightarrow>
                       (Return (Inl e), c', [SetReadDeadline deadline, ReadFromUDP] @ calls))
              | Inr b \<Rightarrow>
                  (Return (Inr (take 65536 b)), c, [SetReadDeadline deadline, ReadFromUDP]))))"

text \<open>
  \<open>ReadWithDeadlineInto\<close> reads into the caller's buffer of \<open>n\<close> bytes and returns
  the number of bytes read.
\<close>

definition ReadWithDeadlineInto ::
  "sockets \<Rightarrow> nat \<Rightarrow> nat \<Rightarrow> UDPClient \<Rightarrow>
   (ioerr + nat) outcome \<times> UDPClient \<times> sock_call list" where
  "ReadWithDeadlineInto os deadline n c =
     (if isClosed c then (Return (Inl ErrClosed), c, [])
      else if udp_c c = None then (Panicked, c, [])
      else
        (case SetReadDeadline_result os of
           Some e \<Rightarrow> (Return (Inl e), c, [SetReadDeadline deadline])
         | None \<Rightarrow>
             (case ReadFromUDP_result os of
                Inl e \<Rightarrow>
                  (case closeOnFailure os e c of
                     (c', calls) \<Rightarrow>
                       (Return (Inl e), c', [SetReadDeadline deadline, ReadFromUDP] @ calls))
              | Inr b \<Rightarrow>
                  (Return (Inr (min n (length b))), c, [SetReadDeadline deadline, ReadFromUDP]))))"

definition WriteThenRead ::
  "sockets \<Rightarrow> byte list \<Rightarrow> nat \<Rightarrow> UDPClient \<Rightarrow>
   (ioerr + byte list) outcome \<times> UDPClient \<times> sock_call list" where
  "WriteThenRead os m deadline c =
     (if isClosed c then (Return (Inl ErrClosed), c, [])
      else
        (case WriteWithDeadline os m deadline c of
           (Panicked, c', calls) \<Rightarrow> (Panicked, c', calls)
         | (Return (Some e), c', calls) \<Rightarrow> (Return (Inl e), c', calls)
         | (Return None, c', calls) \<Rightarrow>
             (case ReadWithDeadline os deadline c' of
                (r, c'', calls') \<Rightarrow> (r, c'', calls @ calls'))))"

definition Connect ::
  "sockets \<Rightarrow> string \<Rightarrow> UDPClient \<Rightarrow> err option \<times> UDPClient \<times> sock_call list" where
  "Connect os addr c =
     (if isConnected c then (Some (Errorf (AlreadyConnected (udp_name c))), c, [])
      else
        (case DialUDP_result os of
           Inl e \<Rightarrow> (Some (IO e), c\<lparr> udp_addr := Some addr, udp_c := None \<rparr>, [DialUDP addr])
         | Inr conn \<Rightarrow>
             (None, c\<lparr> udp_addr := Some addr, udp_c := Some conn, isConnected := True \<rparr>,
              [DialUDP addr])))"

definition Disconnect :: "sockets \<Rightarrow> UDPClient \<Rightarrow> UDPClient \<times> sock_call list" where
  "Disconnect os c =
     (if \<not> isConnected c then (c, [])
      else (case Close os c of (e, c', calls) \<Rightarrow> (c', calls)))"

text \<open>
  A call of one of the package's methods, and the client it leaves behind. The fields are
  not exported, so the clients that a program can hold are those that the methods make
  from a new client.
\<close>

datatype udp_method =
    M_MakeUDPClient string
  | M_MuteLog bool
  | M_Connect string
  | M_Disconnect
  | M_Close
  | M_WriteWithDeadline "byte list" nat
  | M_ReadWithDeadline nat
  | M_ReadWithDeadlineInto nat nat
  | M_WriteThenRead "byte list" nat

fun after_call :: "sockets \<Rightarrow> udp_method \<Rightarrow> UDPClient \<Rightarrow> UDPClient" where
  "after_call os (M_MakeUDPClient name) c = MakeUDPClient name c"
| "after_call os (M_MuteLog muted) c = MuteLog muted c"
| "after_call os (M_Connect addr) c = fst (snd (Connect os addr c))"
| "after_call os M_Disconnect c = fst (Disconnect os c)"
| "after_call os M_Close c = fst (snd (Close os c))"
| "after_call os (M_WriteWithDeadline m deadline) c = fst (snd (WriteWithDeadline os m deadline c))"
| "after_call os (M_ReadWithDeadline deadline) c = fst (snd (ReadWithDeadline os deadline c))"
| "after_call os (M_ReadWithDeadlineInto deadline n) c =
     fst (snd (ReadWithDeadlineInto os deadline n c))"
| "after_call os (M_WriteThenRead m deadline) c = fst (snd (WriteThenRead os m deadline c))"

text \<open>A run: each call with the answers of the operating system during it.\<close>

fun after_calls :: "(sockets \<times> udp_method) list \<Rightarrow> UDPClient \<Rightarrow> UDPClient" where
  "after_calls [] c = c"
| "after_calls ((os, call) # calls) c = after_calls calls (after_call os call c)"

text \<open>The connection pointer is nil exactly when the client is not connected.\<close>

definition conn_inv :: "UDPClient \<Rightarrow> bool" where
  "conn_inv c = ((udp_c c = None) = (\<not> isConnected c))"

text \<open>
  A run for illustration: the operating system accepts every call, or lets the write
  time out; and a client connected to a server.
\<close>

definition os_ok :: sockets where
  "os_ok =
     \<lparr> SetWriteDeadline_result = None, Write_result = None, SetReadDeadline_result = None,
       ReadFromUDP_result = Inr [], Close_result = None, DialUDP_result = Inr 1 \<rparr>"

definition os_write_timeout :: sockets where
  "os_write_timeout = os_ok\<lparr> Write_result := Some (NetError True False) \<rparr>"

definition connected_client :: UDPClient where
  "connected_client = after_calls [(os_ok, M_Connect ''192.0.2.1:5000'')] (NewUDPClient ''snes'')"

section \<open>FX Pak Pro: listFiles\<close>

text \<open>
  The opcode, space and flag constants and the \<open>sni.DirEntryType\<close> enum are declared
  elsewhere in the repository; they are parameters. \<open>DirEntryType_zero\<close> is the enum
  member with the number 0, which \<open>listFiles\<close> writes as \<open>Type: 0\<close>.
\<close>

datatype DirEntryType = DirEntryType_Directory | DirEntryType_File

record fxpak_consts =
  OpLS :: byte
  OpRESPONSE :: byte
  SpaceFILE :: byte
  FlagNONE :: byte
  DirEntryType_zero :: DirEntryType

record DirEntry =
  de_Name :: string
  de_Type :: DirEntryType

text \<open>
  The serial port: the error of \<open>sendSerial\<close> for a packet, and what the \<open>k\<close>-th call
  of \<open>recvSerial\<close> delivers into the buffer, or its error. Both functions are defined
  elsewhere in the repository.
\<close>

record serial =
  sendSerial_result :: "byte list \<Rightarrow> ioerr option"
  recvSerial_result :: "nat \<Rightarrow> ioerr + byte list"

text \<open>
  \<open>recvSerial\<close> writes into the 512 bytes of \<open>sb\<close>; bytes beyond what it delivers keep
  their value.
\<close>

definition received :: "byte list \<Rightarrow> byte list \<Rightarrow> byte list" where
  "received sb p = take 512 p @ drop (length p) sb"

definition BigEndian_PutUint32 :: "u32 \<Rightarrow> byte list" where
  "BigEndian_PutUint32 v =
     [ucast (drop_bit 24 v), ucast (drop_bit 16 v), ucast (drop_bit 8 v), ucast v]"

definition BigEndian_Uint32 :: "byte list \<Rightarrow> u32" where
  "BigEndian_Uint32 bs = foldl (\<lambda>n b. n * 256 + ucast b) 0 (take 4 bs)"

text \<open>The request packet that \<open>listFiles\<close> builds in \<open>sb\<close>.\<close>

definition lsRequest :: "fxpak_consts \<Rightarrow> string \<Rightarrow> byte list" where
  "lsRequest K path =
     (let n = min 256 (length path) in
      [0x55, 0x53, 0x42, 0x41, OpLS K, SpaceFILE K, FlagNONE K]
      @ replicate 245 0
      @ BigEndian_PutUint32 (word_of_nat n)
      @ map of_char (take 256 path)
      @ replicate (256 - n) 0)"

text \<open>
  The inner loop of \<open>listFiles\<close> over one data packet. \<open>nameEnd sb start\<close> is the index
  where the loop \<open>for i < 512 && sb[i] != 0 { i++ }\<close> stops when it starts at
  \<open>start\<close>.
\<close>

definition nameEnd :: "byte list \<Rightarrow> nat \<Rightarrow> nat" where
  "nameEnd sb start =
     start + length (takeWhile (\<lambda>b. b \<noteq> 0) (take (512 - start) (drop start sb)))"

datatype packet_result =
    NoMoreData "DirEntry list"
  | NextPacket "DirEntry list"
  | PacketError err

function parseEntries :: "fxpak_consts \<Rightarrow> byte list \<Rightarrow> nat \<Rightarrow> DirEntry list \<Rightarrow> packet_result" where
  "parseEntries K sb i files =
     (if i < 512 then
        (if sb ! i = 0xFF then NoMoreData files
         else if sb ! i = 2 then NextPacket files
         else
           (let ty = (if sb ! i = 0 then DirEntryType_Directory
                      else if sb ! i = 1 then DirEntryType_File
                      else DirEntryType_zero K);
                start = i + 1;
                j = nameEnd sb start
            in if 512 \<le> j then PacketError (Errorf LsInvalidPacketFormat)
               else parseEntries K sb (j + 1)
                      (files @ [\<lparr> de_Name = map (\<lambda>b. char_of (unat b)) (take (j - start) (drop start sb)),
                                   de_Type = ty \<rparr>])))
      else if i = 512 then
        (if sb ! (i - 1) \<noteq> 0 then PacketError (Errorf LsMalformedPacket) else NextPacket files)
      else NextPacket files)"
  by pat_completeness auto
termination
  by (relation "measure (\<lambda>(K, sb, i, files). 512 - i)") (auto simp: nameEnd_def)

text \<open>
  The loop \<open>recvLoop\<close> receives data packets until one ends the listing. A device that
  keeps sending packets keeps the loop running: \<open>fuel\<close> bounds the number of packets,
  and \<open>None\<close> means that the loop has not returned within it. \<open>k\<close> counts the calls
  of \<open>recvSerial\<close>.
\<close>

fun recvLoop ::
  "fxpak_consts \<Rightarrow> serial \<Rightarrow> nat \<Rightarrow> nat \<Rightarrow> byte list \<Rightarrow> DirEntry list \<Rightarrow>
   (err + DirEntry list) option" where
  "recvLoop K port 0 k sb files = None"
| "recvLoop K port (Suc fuel) k sb files =
     (case recvSerial_result port k of
        Inl e \<Rightarrow> Some (Inl (Fatal (IO e)))
      | Inr p \<Rightarrow>
          (case parseEntries K (received sb p) 0 files of
             NoMoreData files' \<Rightarrow> Some (Inr files')
           | NextPacket files' \<Rightarrow> recvLoop K port fuel (k + 1) (received sb p) files'
           | PacketError e \<Rightarrow> Some (Inl e)))"

text \<open>
  Modelled from the spec: the methods \<open>FatalError\<close> and \<open>NonFatalError\<close> of
  \<open>fxpakCommands\<close> are defined elsewhere in the repository. Sections 4.2 and 7 of the
  specification class an error as fatal or non-fatal; the NWA client's methods of the same
  names wrap the cause with \<open>devices.DeviceFatal\<close> and \<open>devices.DeviceNonFatal\<close>, and
  so do these.
\<close>

definition FatalError :: "err \<Rightarrow> err" where
  "FatalError cause = Fatal cause"

definition NonFatalError :: "err \<Rightarrow> err" where
  "NonFatalError cause = NonFatal cause"

text \<open>
  \<open>listFiles\<close>: the request, the response header with its four checks, then the data
  packets.
\<close>

definition listFiles ::
  "fxpak_consts \<Rightarrow> serial \<Rightarrow> nat \<Rightarrow> string \<Rightarrow> (err + DirEntry list) option" where
  "listFiles K port fuel path =
     (let sb = lsRequest K path in
      case sendSerial_result port sb of
        Some e \<Rightarrow> Some (Inl (FatalError (IO e)))
      | None \<Rightarrow>
          (case recvSerial_result port 0 of
             Inl e \<Rightarrow> Some (Inl (FatalError (IO e)))
           | Inr p \<Rightarrow>
               (let sb = received sb p in
                if sb ! 0 \<noteq> 0x55 \<or> sb ! 1 \<noteq> 0x53 \<or> sb ! 2 \<noteq> 0x42 \<or> sb ! 3 \<noteq> 0x41 then
                  Some (Inl (FatalError (Errorf LsNoUSBAHeader)))
                else if BigEndian_Uint32 (take 4 (drop 252 sb)) \<noteq> 1 then
                  Some (Inl (FatalError
                    (Errorf (LsResponseSize (BigEndian_Uint32 (take 4 (drop 252 sb)))))))
                else if sb ! 4 \<noteq> OpRESPONSE K then
                  Some (Inl (FatalError (Errorf (LsWrongOpcode (sb ! 4)))))
                else if sb ! 5 \<noteq> 0 then
                  Some (Inl (NonFatalError (Errorf (LsFailed path (sb ! 5)))))
                else recvLoop K port fuel 1 sb [])))"

text \<open>
  Modelled from the spec: the device container and the session state are defined
  elsewhere in the repository. Sections 4.2 and 4.6 of the specification: on a fatal error the device
  becomes closed and its entry is evicted; after a non-fatal error the session survives.
\<close>

datatype session = Ready | Closed

fun session_after :: "(err + 'a) option \<Rightarrow> session \<Rightarrow> session" where
  "session_after (Some (Inl (Fatal cause))) s = Closed"
| "session_after r s = s"

text \<open>A device for illustration: it answers the request with one header packet.\<close>

definition example_consts :: fxpak_consts where
  "example_consts =
     \<lparr> OpLS = 4, OpRESPONSE = 15, SpaceFILE = 0, FlagNONE = 0,
       DirEntryType_zero = DirEntryType_Directory \<rparr>"

definition header_packet :: "byte list \<Rightarrow> byte \<Rightarrow> byte \<Rightarrow> u32 \<Rightarrow> byte list" where
  "header_packet magic opcode ec sz =
     magic @ [opcode, ec] @ replicate 246 0 @ BigEndian_PutUint32 sz @ replicate 256 0"

definition port_answering :: "byte list \<Rightarrow> serial" where
  "port_answering p =
     \<lparr> sendSerial_result = (\<lambda>sb. None),
       recvSerial_result = (\<lambda>k. if k = 0 then Inr p else Inl (NetError True False)) \<rparr>"

section \<open>NWA client: commands and replies\<close>

text \<open>
  The emulator at the other end of the connection. What it answers may depend on all that
  the client has written so far (\<open>sent\<close>) and on how many replies the client has read
  (\<open>nread\<close>): the error of \<open>SetWriteDeadline\<close> before a write, the error of the write,
  the error of \<open>SetReadDeadline\<close>, and the bytes that the reader delivers to the next
  \<open>parseResponse\<close> with the error that follows them.
\<close>

record nwa =
  nwa_SetWriteDeadline :: "string list \<Rightarrow> ioerr option"
  nwa_Write :: "string list \<Rightarrow> ioerr option"
  nwa_SetReadDeadline :: "string list \<Rightarrow> nat \<Rightarrow> ioerr option"
  nwa_incoming :: "string list \<Rightarrow> nat \<Rightarrow> string \<times> ioerr"

text \<open>
  Configuration types of packages \<open>platforms\<close> and \<open>emunwa\<close>, declared elsewhere in the
  repository, with the fields that \<open>client.go\<close> uses. A compiled regular
  expression is the predicate that its \<open>Match\<close> decides; an optional one may be nil.
\<close>

record DomainConf =
  dc_Name :: string
  dc_Size :: u64

record Domain = DomainConf +
  IsExposed :: bool
  IsCoreSpecific :: bool
  IsReadable :: bool
  IsWriteable :: bool

record PlatformConf =
  pc_Domains :: "DomainConf list"
  pc_DomainsByName :: "string \<rightharpoonup> DomainConf"

record PlatformsConfig =
  PlatformsByName :: "string \<rightharpoonup> PlatformConf"

record CoreMatches =
  CoreNameRegex :: "string \<Rightarrow> bool"
  CoreVersionRegex :: "(string \<Rightarrow> bool) option"
  CorePlatformRegex :: "(string \<Rightarrow> bool) option"

record CoreDefine =
  cd_Platform :: string
  CoreToSNIMapping :: "string \<rightharpoonup> string"
  SNIToCoreMapping :: "string \<rightharpoonup> string"

record CoreConfig =
  cc_Name :: string
  Matches :: CoreMatches
  Define :: CoreDefine

text \<open>
  The client: what it has written and how many replies it has read, and the cached core,
  platform and domains (\<open>None\<close> is nil). The client is connected; the mutex has no part
  in a sequential run.
\<close>

record Client =
  sent :: "string list"
  nread :: nat
  currentCore :: "CoreConfig option"
  currentPlatform :: "PlatformConf option"
  currentDomains :: "Domain list option"

definition writeWithDeadline :: "nwa \<Rightarrow> string \<Rightarrow> Client \<Rightarrow> err option \<times> Client" where
  "writeWithDeadline emu bytes c =
     (case nwa_SetWriteDeadline emu (sent c) of
        Some e \<Rightarrow> (Some (Fatal (IO e)), c)
      | None \<Rightarrow>
          (let c' = c\<lparr> sent := sent c @ [bytes] \<rparr> in
           case nwa_Write emu (sent c') of
             Some e \<Rightarrow> (Some (Fatal (IO e)), c')
           | None \<Rightarrow> (None, c')))"

definition readResponse :: "nwa \<Rightarrow> Client \<Rightarrow> (err + reply) \<times> Client" where
  "readResponse emu c =
     (case nwa_SetReadDeadline emu (sent c) (nread c) of
        Some e \<Rightarrow> (Inl (Fatal (IO e)), c)
      | None \<Rightarrow>
          (case nwa_incoming emu (sent c) (nread c) of
             (input, eof) \<Rightarrow> (parseResponse input eof, c\<lparr> nread := nread c + 1 \<rparr>)))"

text \<open>The \<open>ascii\<close> result of a reply; it is nil (of length 0) for a binary reply.\<close>

fun ascii_of :: "reply \<Rightarrow> item list" where
  "ascii_of (Ascii items) = items"
| "ascii_of (Bin b) = []"

text \<open>
  \<open>SendCommandWaitReply\<close>. The error of the write is wrapped a second time. A reply
  whose first item has the key \<open>error\<close> is returned as an error.
\<close>

definition SendCommandWaitReply :: "nwa \<Rightarrow> string \<Rightarrow> Client \<Rightarrow> (err + reply) \<times> Client" where
  "SendCommandWaitReply emu cmd c =
     (case writeWithDeadline emu (cmd @ [LF]) c of
        (Some e, c1) \<Rightarrow> (Inl (Fatal e), c1)
      | (None, c1) \<Rightarrow>
          (case readResponse emu c1 of
             (Inl e, c2) \<Rightarrow> (Inl e, c2)
           | (Inr rep, c2) \<Rightarrow>
               (case ascii_of rep of
                  [] \<Rightarrow> (Inr rep, c2)
                | first # others \<Rightarrow>
                    (case first ''error'' of
                       Some errText \<Rightarrow> (Inl (Errorf (ReplyError errText)), c2)
                     | None \<Rightarrow> (Inr rep, c2)))))"

definition getFirstValue :: "item list \<Rightarrow> string \<Rightarrow> string" where
  "getFirstValue reply name =
     (case reply of
        [] \<Rightarrow> []
      | first # others \<Rightarrow> (case first name of None \<Rightarrow> [] | Some v \<Rightarrow> v))"

section \<open>NWA client: FetchFields\<close>

text \<open>
  The members of \<open>sni.Field\<close> that \<open>FetchFields\<close> names; any other value of the enum is
  \<open>Field_other\<close> with its number.
\<close>

datatype Field =
    Field_DeviceName
  | Field_DeviceVersion
  | Field_DeviceStatus
  | Field_CoreName
  | Field_CoreVersion
  | Field_CorePlatform
  | Field_RomFileName
  | Field_other nat

record wants =
  wantGameInfo :: bool
  wantCoreInfo :: bool
  wantEmulatorInfo :: bool
  wantEmulationStatus :: bool

text \<open>
  The first \<open>switch\<close>, for one field. In Go a \<open>case\<close> without statements does nothing
  and does not fall through to the next one: \<open>DeviceName\<close>, \<open>CoreName\<close> and
  \<open>CoreVersion\<close> set no flag.
\<close>

fun want :: "Field \<Rightarrow> wants \<Rightarrow> wants" where
  "want Field_DeviceName w = w"
| "want Field_DeviceVersion w = w\<lparr> wantEmulatorInfo := True \<rparr>"
| "want Field_DeviceStatus w = w\<lparr> wantEmulationStatus := True \<rparr>"
| "want Field_CoreName w = w"
| "want Field_CoreVersion w = w"
| "want Field_CorePlatform w = w\<lparr> wantCoreInfo := True \<rparr>"
| "want Field_RomFileName w = w\<lparr> wantGameInfo := True \<rparr>"
| "want (Field_other n) w = w"

text \<open>One of the four conditional requests; without the request the reply variable is nil.\<close>

definition request_if ::
  "bool \<Rightarrow> string \<Rightarrow> nwa \<Rightarrow> Client \<Rightarrow> (err + item list) \<times> Client" where
  "request_if wanted cmd emu c =
     (if wanted then
        (case SendCommandWaitReply emu cmd c of
           (Inl e, c') \<Rightarrow> (Inl e, c')
         | (Inr rep, c') \<Rightarrow> (Inr (ascii_of rep), c'))
      else (Inr [], c))"

text \<open>The second \<open>switch\<close>: the value for one field.\<close>

fun field_value ::
  "item list \<Rightarrow> item list \<Rightarrow> item list \<Rightarrow> item list \<Rightarrow> Field \<Rightarrow> string" where
  "field_value gameInfo coreInfo emulatorInfo emulationStatus Field_DeviceName =
     getFirstValue emulatorInfo ''name''"
| "field_value gameInfo coreInfo emulatorInfo emulationStatus Field_DeviceVersion =
     getFirstValue emulatorInfo ''version''"
| "field_value gameInfo coreInfo emulatorInfo emulationStatus Field_DeviceStatus =
     getFirstValue emulationStatus ''state''"
| "field_value gameInfo coreInfo emulatorInfo emulationStatus Field_CoreName =
     getFirstValue coreInfo ''name''"
| "field_value gameInfo coreInfo emulatorInfo emulationStatus Field_CoreVersion =
     getFirstValue coreInfo ''version''"
| "field_value gameInfo coreInfo emulatorInfo emulationStatus Field_CorePlatform =
     getFirstValue coreInfo ''platform''"
| "field_value gameInfo coreInfo emulatorInfo emulationStatus Field_RomFileName =
     getFirstValue gameInfo ''file''"
| "field_value gameInfo coreInfo emulatorInfo emulationStatus (Field_other n) = []"

definition FetchFields :: "nwa \<Rightarrow> Field list \<Rightarrow> Client \<Rightarrow> (err + string list) \<times> Client" where
  "FetchFields emu flds c =
     (let w = fold want flds
                \<lparr> wantGameInfo = False, wantCoreInfo = False, wantEmulatorInfo = False,
                  wantEmulationStatus = False \<rparr>
      in
      case request_if (wantGameInfo w) ''GAME_INFO'' emu c of
        (Inl e, c1) \<Rightarrow> (Inl e, c1)
      | (Inr gameInfo, c1) \<Rightarrow>
      (case request_if (wantCoreInfo w) ''CORE_CURRENT_INFO'' emu c1 of
        (Inl e, c2) \<Rightarrow> (Inl e, c2)
      | (Inr coreInfo, c2) \<Rightarrow>
      (case request_if (wantEmulatorInfo w) ''EMULATOR_INFO'' emu c2 of
        (Inl e, c3) \<Rightarrow> (Inl e, c3)
      | (Inr emulatorInfo, c3) \<Rightarrow>
      (case request_if (wantEmulationStatus w) ''EMULATION_STATUS'' emu c3 of
        (Inl e, c4) \<Rightarrow> (Inl e, c4)
      | (Inr emulationStatus, c4) \<Rightarrow>
          (Inr (map (field_value gameInfo coreInfo emulatorInfo emulationStatus) flds), c4)))))"

text \<open>
  An emulator for illustration. It answers every command with one ASCII reply that has the
  keys \<open>name\<close>, \<open>version\<close>, \<open>platform\<close>, \<open>state\<close> and \<open>file\<close>.
\<close>

definition emu_snes9x :: nwa where
  "emu_snes9x =
     \<lparr> nwa_SetWriteDeadline = (\<lambda>sent. None),
       nwa_Write = (\<lambda>sent. None),
       nwa_SetReadDeadline = (\<lambda>sent n. None),
       nwa_incoming = (\<lambda>sent n.
          (LF # ''name:snes9x'' @ [LF] @ ''version:1.60'' @ [LF] @ ''platform:SNES'' @ [LF]
              @ ''state:running'' @ [LF] @ ''file:game.sfc'' @ [LF, LF], EOF)) \<rparr>"

definition new_client :: Client where
  "new_client =
     \<lparr> sent = [], nread = 0, currentCore = None, currentPlatform = None, currentDomains = None \<rparr>"

section \<open>NWA client: determineDomainMapping and MemoryDomains\<close>

text \<open>
  Functions of the Go library, as parameters: \<open>strings.TrimSpace\<close>,
  \<open>strings.ToLower\<close>, and \<open>strconv.ParseUint(s, 10, 64)\<close> with \<open>None\<close> for its
  error.
\<close>

record golib =
  TrimSpace :: "string \<Rightarrow> string"
  ToLower :: "string \<Rightarrow> string"
  ParseUint :: "string \<Rightarrow> u64 option"

definition clean :: "golib \<Rightarrow> string \<Rightarrow> string" where
  "clean L s = TrimSpace L s"

definition cleanLower :: "golib \<Rightarrow> string \<Rightarrow> string" where
  "cleanLower L s = ToLower L (clean L s)"

text \<open>The package variables \<open>currentPlatConfig\<close> (which may be nil) and \<open>coresConfig\<close>.\<close>

record globals =
  currentPlatConfig :: "PlatformsConfig option"
  coresConfig :: "CoreConfig list"

text \<open>The loop over \<open>coresConfig\<close>: the first entry that all its regular expressions match.\<close>

fun findCore :: "CoreConfig list \<Rightarrow> string \<Rightarrow> string \<Rightarrow> string \<Rightarrow> CoreConfig option" where
  "findCore [] coreName coreVersion corePlatform = None"
| "findCore (coreConfig # rest) coreName coreVersion corePlatform =
     (if \<not> CoreNameRegex (Matches coreConfig) coreName then
        findCore rest coreName coreVersion corePlatform
      else if (case CoreVersionRegex (Matches coreConfig) of
                 Some re \<Rightarrow> \<not> re coreVersion | None \<Rightarrow> False) then
        findCore rest coreName coreVersion corePlatform
      else if (case CorePlatformRegex (Matches coreConfig) of
                 Some re \<Rightarrow> \<not> re corePlatform | None \<Rightarrow> False) then
        findCore rest coreName coreVersion corePlatform
      else Some coreConfig)"

text \<open>
  \<open>currentDomains\<close> is a list of pointers and \<open>currentDomainsMap\<close> maps a name to one
  of the same pointers: the map is modelled with the position in the list. The first loop
  enters the domains of the platform.
\<close>

type_synonym domain_table = "Domain list \<times> (string \<rightharpoonup> nat)"

definition platformDomain :: "golib \<Rightarrow> DomainConf \<Rightarrow> domain_table \<Rightarrow> domain_table" where
  "platformDomain L d tab =
     (case tab of
        (doms, byName) \<Rightarrow>
          (let pd = \<lparr> dc_Name = dc_Name d, dc_Size = dc_Size d, IsExposed = False,
                      IsCoreSpecific = False, IsReadable = False, IsWriteable = False \<rparr>
           in (doms @ [pd], byName(cleanLower L (dc_Name pd) \<mapsto> length doms))))"

definition item_get :: "item \<Rightarrow> string \<Rightarrow> string" where
  "item_get m k = (case m k of None \<Rightarrow> [] | Some v \<Rightarrow> v)"

text \<open>The body of the loop over the records of the \<open>CORE_MEMORIES\<close> reply.\<close>

definition coreMemory ::
  "golib \<Rightarrow> CoreConfig \<Rightarrow> PlatformConf \<Rightarrow> item \<Rightarrow> domain_table \<Rightarrow> err + domain_table" where
  "coreMemory L core plat m tab =
     (case tab of
        (doms, byName) \<Rightarrow>
          (let coreMemName = cleanLower L (item_get m ''name'');
               coreMemSize = cleanLower L (item_get m ''size'');
               coreMemAccess = cleanLower L (item_get m ''access'')
           in
           case ParseUint L coreMemSize of
             None \<Rightarrow> Inl (Fatal (Errorf (BadMemorySize coreMemSize)))
           | Some coreMemSizeN \<Rightarrow>
               (case CoreToSNIMapping (Define core) coreMemName of
                  None \<Rightarrow> Inl (Fatal (Errorf (UnmappedCoreMemory coreMemName)))
                | Some mapped \<Rightarrow>
                    (let sniMemName =
                           (case pc_DomainsByName plat (cleanLower L mapped) of
                              Some domainConf \<Rightarrow> dc_Name domainConf
                            | None \<Rightarrow> mapped);
                         sniMemNameLower = cleanLower L sniMemName;
                         tab1 =
                           (case byName sniMemNameLower of
                              Some i \<Rightarrow> (doms, byName)
                            | None \<Rightarrow>
                                (doms @ [\<lparr> dc_Name = sniMemName, dc_Size = coreMemSizeN,
                                            IsExposed = True, IsCoreSpecific = True,
                                            IsReadable = False, IsWriteable = False \<rparr>],
                                 byName(sniMemNameLower \<mapsto> length doms)));
                         i = (case byName sniMemNameLower of Some i \<Rightarrow> i | None \<Rightarrow> length doms);
                         pd = (fst tab1 ! i)\<lparr> IsExposed := True, dc_Size := coreMemSizeN \<rparr>;
                         pd' =
                           (if coreMemAccess = ''rw'' then pd\<lparr> IsReadable := True, IsWriteable := True \<rparr>
                            else if coreMemAccess = ''r'' then pd\<lparr> IsReadable := True \<rparr>
                            else if coreMemAccess = ''w'' then pd\<lparr> IsWriteable := True \<rparr>
                            else pd)
                     in Inr ((fst tab1)[i := pd'], snd tab1)))))"

fun coreMemories ::
  "golib \<Rightarrow> CoreConfig \<Rightarrow> PlatformConf \<Rightarrow> item list \<Rightarrow> domain_table \<Rightarrow> err + domain_table" where
  "coreMemories L core plat [] tab = Inr tab"
| "coreMemories L core plat (m # memories) tab =
     (case coreMemory L core plat m tab of
        Inl e \<Rightarrow> Inl e
      | Inr tab' \<Rightarrow> coreMemories L core plat memories tab')"

text \<open>
  \<open>determineDomainMapping\<close>: nothing is done when \<open>currentDomains\<close> is not nil. The
  three cached fields are written together, after the discovery has succeeded.
\<close>

definition determineDomainMapping ::
  "globals \<Rightarrow> golib \<Rightarrow> nwa \<Rightarrow> Client \<Rightarrow> err option \<times> Client" where
  "determineDomainMapping G L emu c =
     (if currentDomains c \<noteq> None then (None, c)
      else
        case currentPlatConfig G of
          None \<Rightarrow> (Some (Fatal (Errorf MissingPlatformsConfig)), c)
        | Some platConfig \<Rightarrow>
        (case FetchFields emu [Field_CoreName, Field_CoreVersion, Field_CorePlatform] c of
          (Inl e, c1) \<Rightarrow> (Some e, c1)
        | (Inr flds, c1) \<Rightarrow>
        (let coreName = clean L (flds ! 0);
             coreVersion = clean L (flds ! 1);
             corePlatform = clean L (flds ! 2)
         in
         case findCore (coresConfig G) coreName coreVersion corePlatform of
           None \<Rightarrow> (Some (Fatal (Errorf (NoCoreMatch coreName coreVersion corePlatform))), c1)
         | Some core \<Rightarrow>
         (case PlatformsByName platConfig (cd_Platform (Define core)) of
           None \<Rightarrow> (Some (Fatal (Errorf (PlatformNotFound (cd_Platform (Define core))))), c1)
         | Some plat \<Rightarrow>
         (case SendCommandWaitReply emu ''CORE_MEMORIES'' c1 of
           (Inl e, c2) \<Rightarrow> (Some e, c2)
         | (Inr rep, c2) \<Rightarrow>
         (case coreMemories L core plat (ascii_of rep)
                 (fold (platformDomain L) (pc_Domains plat) ([], Map.empty)) of
            Inl e \<Rightarrow> (Some e, c2)
          | Inr (doms, byName) \<Rightarrow>
              (None, c2\<lparr> currentCore := Some core, currentPlatform := Some plat,
                         currentDomains := Some doms \<rparr>)))))))"

text \<open>\<open>sni.MemoryDomain\<close> and the response as the NWA client fills them.\<close>

record nwa_MemoryDomain =
  nmd_Name :: string
  nmd_IsExposed :: bool
  nmd_IsCoreSpecific :: bool
  nmd_Size :: u64
  nmd_IsReadable :: bool
  nmd_IsWriteable :: bool

record nwa_MemoryDomainsResponse =
  nrsp_Uri :: string
  nrsp_CoreName :: string
  nrsp_Domains :: "nwa_MemoryDomain list"

text \<open>
  \<open>(c *Client) MemoryDomains\<close>. Its first statement is
  \<open>c.currentDomains, c.currentPlatform, c.currentDomains = nil, nil, nil\<close>: it assigns
  \<open>currentDomains\<close> twice and \<open>currentPlatform\<close> once, and leaves \<open>currentCore\<close> as
  it is.
\<close>

definition nwa_MemoryDomains ::
  "globals \<Rightarrow> golib \<Rightarrow> nwa \<Rightarrow> MemoryDomainsRequest \<Rightarrow> Client \<Rightarrow>
   (err + nwa_MemoryDomainsResponse) \<times> Client" where
  "nwa_MemoryDomains G L emu request c =
     (case determineDomainMapping G L emu
             (c\<lparr> currentDomains := None, currentPlatform := None, currentDomains := None \<rparr>) of
        (Some e, c') \<Rightarrow> (Inl e, c')
      | (None, c') \<Rightarrow>
          (case currentCore c' of
             None \<Rightarrow> (Inl Panic, c')
           | Some core \<Rightarrow>
               (Inr \<lparr> nrsp_Uri = mdreq_Uri request,
                      nrsp_CoreName = cc_Name core,
                      nrsp_Domains =
                        map (\<lambda>d. \<lparr> nmd_Name = dc_Name d, nmd_IsExposed = IsExposed d,
                                   nmd_IsCoreSpecific = IsCoreSpecific d, nmd_Size = dc_Size d,
                                   nmd_IsReadable = IsReadable d, nmd_IsWriteable = IsWriteable d \<rparr>)
                            (case currentDomains c' of None \<Rightarrow> [] | Some doms \<Rightarrow> doms) \<rparr>,
                c')))"

text \<open>
  A configuration for illustration: the platform \<open>snes\<close> with the domain WRAM, and a
  core entry for bsnes that maps the core memory \<open>snes_wram\<close> to it. The library
  functions are the identity on these strings, and sizes have one decimal digit.
\<close>

definition example_platform :: PlatformConf where
  "example_platform =
     \<lparr> pc_Domains = [\<lparr> dc_Name = ''wram'', dc_Size = 0 \<rparr>],
       pc_DomainsByName = [''wram'' \<mapsto> \<lparr> dc_Name = ''wram'', dc_Size = 0 \<rparr>] \<rparr>"

definition example_core :: CoreConfig where
  "example_core =
     \<lparr> cc_Name = ''bsnes'',
       Matches = \<lparr> CoreNameRegex = (\<lambda>s. s = ''bsnes''), CoreVersionRegex = None,
                   CorePlatformRegex = None \<rparr>,
       Define = \<lparr> cd_Platform = ''snes'', CoreToSNIMapping = [''snes_wram'' \<mapsto> ''wram''],
                  SNIToCoreMapping = [''wram'' \<mapsto> ''snes_wram''] \<rparr> \<rparr>"

definition example_globals :: globals where
  "example_globals =
     \<lparr> currentPlatConfig = Some \<lparr> PlatformsByName = [''snes'' \<mapsto> example_platform] \<rparr>,
       coresConfig = [example_core] \<rparr>"

definition example_golib :: golib where
  "example_golib =
     \<lparr> TrimSpace = (\<lambda>s. s), ToLower = (\<lambda>s. s),
       ParseUint = (\<lambda>s. case s of [d] \<Rightarrow> Some (word_of_nat (of_char d - 48)) | _ \<Rightarrow> None) \<rparr>"

text \<open>
  An emulator running bsnes that answers \<open>CORE_CURRENT_INFO\<close> and \<open>CORE_MEMORIES\<close>,
  and one whose connection has broken: every write to it times out.
\<close>

definition emu_bsnes :: nwa where
  "emu_bsnes =
     \<lparr> nwa_SetWriteDeadline = (\<lambda>sent. None),
       nwa_Write = (\<lambda>sent. None),
       nwa_SetReadDeadline = (\<lambda>sent n. None),
       nwa_incoming = (\<lambda>sent n.
          if last sent = ''CORE_MEMORIES'' @ [LF]
          then (LF # ''name:snes_wram'' @ [LF] @ ''size:8'' @ [LF] @ ''access:rw'' @ [LF, LF], EOF)
          else (LF # ''name:bsnes'' @ [LF] @ ''version:115'' @ [LF] @ ''platform:SNES'' @ [LF, LF],
                EOF)) \<rparr>"

definition emu_broken :: nwa where
  "emu_broken = emu_bsnes\<lparr> nwa_Write := (\<lambda>sent. Some (NetError True False)) \<rparr>"



section \<open>NWA client: MultiReadMemory\<close>

text \<open>
  \<open>mapping.MemoryTypeFor\<close> is defined elsewhere in the repository: it is the parameter
  \<open>mtf\<close>, from an address tuple to the memory type, the pak address and the offset in
  that memory. A memory type is the text that \<open>%s\<close> prints for it.
\<close>

type_synonym MemoryTypeFor = "AddressTuple \<Rightarrow> string \<times> u32 \<times> u32"

text \<open>
  A region of a group. Its \<open>Data\<close> slice shares the array of the response's \<open>Data\<close>:
  \<open>mr_Data\<close> is the index of that response in \<open>mrsp\<close>.
\<close>

record memRegion =
  mr_MemoryType :: string
  mr_Offset :: u32
  mr_Size :: int
  mr_Data :: nat

text \<open>The verb \<open>%x\<close> of package \<open>fmt\<close> for an unsigned number and for an \<open>int\<close>.\<close>

definition hexdigit :: "nat \<Rightarrow> char" where
  "hexdigit d = ''0123456789abcdef'' ! d"

function fmt_x :: "nat \<Rightarrow> string" where
  "fmt_x n = (if n < 16 then [hexdigit n] else fmt_x (n div 16) @ [hexdigit (n mod 16)])"
  by pat_completeness auto
termination
  by (relation "measure id") auto

definition fmt_x_int :: "int \<Rightarrow> string" where
  "fmt_x_int i = (if i < 0 then CHR ''-'' # fmt_x (nat (- i)) else fmt_x (nat i))"

text \<open>
  The first loop: one response and one region for each read, the memory types in the order
  of their first use, and the regions of each type. \<open>make([]byte, read.Size)\<close> panics on
  a negative size. The response of read \<open>j\<close> is at index \<open>j\<close>, which is the length of
  the list built so far.
\<close>

fun groupReads ::
  "MemoryTypeFor \<Rightarrow> MemoryReadRequest list \<Rightarrow> MemoryReadResponse list \<Rightarrow> string list \<Rightarrow>
   (string \<rightharpoonup> memRegion list) \<Rightarrow>
   err + (MemoryReadResponse list \<times> string list \<times> (string \<rightharpoonup> memRegion list))" where
  "groupReads mtf [] mrsp memTypes readGroups = Inr (mrsp, memTypes, readGroups)"
| "groupReads mtf (read # rest) mrsp memTypes readGroups =
     (if rr_Size read < 0 then Inl Panic
      else
        (case mtf (rr_RequestAddress read) of
           (memType, pakAddress, offset) \<Rightarrow>
             groupReads mtf rest
               (mrsp @ [\<lparr> rs_RequestAddress = rr_RequestAddress read,
                           rs_DeviceAddress =
                             \<lparr> Address = pakAddress, AddressSpace = AddressSpace_FxPakPro,
                               MemoryMapping = MemoryMapping (rr_RequestAddress read) \<rparr>,
                           rs_Data = replicate (nat (rr_Size read)) 0 \<rparr>])
               (if readGroups memType = None then memTypes @ [memType] else memTypes)
               (readGroups(memType \<mapsto>
                  (case readGroups memType of None \<Rightarrow> [] | Some regions \<Rightarrow> regions)
                  @ [\<lparr> mr_MemoryType = memType, mr_Offset = offset, mr_Size = rr_Size read,
                       mr_Data = length mrsp \<rparr>]))))"

text \<open>Reading a map at a key that it does not have gives the nil slice.\<close>

definition regions_of :: "(string \<rightharpoonup> memRegion list) \<Rightarrow> string \<Rightarrow> memRegion list" where
  "regions_of readGroups memType =
     (case readGroups memType of None \<Rightarrow> [] | Some regions \<Rightarrow> regions)"

definition coreReadCommand :: "string \<Rightarrow> memRegion list \<Rightarrow> string" where
  "coreReadCommand memType regions =
     ''CORE_READ '' @ memType
     @ concat (map (\<lambda>region. '';$'' @ fmt_x (unat (mr_Offset region))
                              @ '';$'' @ fmt_x_int (mr_Size region)) regions)
     @ [LF]"

text \<open>The second loop writes one command for each memory type.\<close>

fun writeReadCommands ::
  "nwa \<Rightarrow> string list \<Rightarrow> (string \<rightharpoonup> memRegion list) \<Rightarrow> Client \<Rightarrow> err option \<times> Client" where
  "writeReadCommands emu [] readGroups c = (None, c)"
| "writeReadCommands emu (memType # rest) readGroups c =
     (case writeWithDeadline emu (coreReadCommand memType (regions_of readGroups memType)) c of
        (Some e, c') \<Rightarrow> (Some e, c')
      | (None, c') \<Rightarrow> writeReadCommands emu rest readGroups c')"

text \<open>
  The built-in \<open>copy(dst, src)\<close> and the slice expression \<open>bin[lo:hi]\<close> for
  \<open>0 \<le> lo \<le> hi \<le> len(bin)\<close>.
\<close>

definition copy_bytes :: "byte list \<Rightarrow> byte list \<Rightarrow> byte list" where
  "copy_bytes dst src = take (length dst) src @ drop (length src) dst"

definition slice :: "byte list \<Rightarrow> int \<Rightarrow> int \<Rightarrow> byte list" where
  "slice bin lo hi = take (nat (hi - lo)) (drop (nat lo) bin)"

definition copy_to :: "MemoryReadResponse list \<Rightarrow> nat \<Rightarrow> byte list \<Rightarrow> MemoryReadResponse list" where
  "copy_to mrsp j src = mrsp[j := (mrsp ! j)\<lparr> rs_Data := copy_bytes (rs_Data (mrsp ! j)) src \<rparr>]"

text \<open>The loop over the regions of one group, with the running \<open>offset\<close> into the reply.\<close>

fun copyRegions ::
  "byte list \<Rightarrow> memRegion list \<Rightarrow> int \<Rightarrow> MemoryReadResponse list \<Rightarrow> MemoryReadResponse list" where
  "copyRegions bin [] offset mrsp = mrsp"
| "copyRegions bin (region # regions) offset mrsp =
     (let sz = int (length bin) - offset in
      copyRegions bin regions (offset + mr_Size region)
        (if int (length bin) \<le> offset then mrsp
         else if sz < mr_Size region then
           copy_to mrsp (mr_Data region) (slice bin offset (offset + sz))
         else copy_to mrsp (mr_Data region) (slice bin offset (offset + mr_Size region))))"

text \<open>The third loop reads one reply for each memory type and copies it to the regions.\<close>

fun readReplies ::
  "nwa \<Rightarrow> string list \<Rightarrow> (string \<rightharpoonup> memRegion list) \<Rightarrow> MemoryReadResponse list \<Rightarrow> Client \<Rightarrow>
   (err + MemoryReadResponse list) \<times> Client" where
  "readReplies emu [] readGroups mrsp c = (Inr mrsp, c)"
| "readReplies emu (memType # rest) readGroups mrsp c =
     (case readResponse emu c of
        (Inl e, c') \<Rightarrow> (Inl e, c')
      | (Inr (Ascii ascii), c') \<Rightarrow> (Inl (Errorf ExpectingBinaryReply), c')
      | (Inr (Bin bin), c') \<Rightarrow>
          readReplies emu rest readGroups
            (copyRegions bin (regions_of readGroups memType) 0 mrsp) c')"

definition MultiReadMemory ::
  "nwa \<Rightarrow> MemoryTypeFor \<Rightarrow> MemoryReadRequest list \<Rightarrow> Client \<Rightarrow>
   (err + MemoryReadResponse list) \<times> Client" where
  "MultiReadMemory emu mtf reads c =
     (case groupReads mtf reads [] [] Map.empty of
        Inl e \<Rightarrow> (Inl e, c)
      | Inr (mrsp, memTypes, readGroups) \<Rightarrow>
          (case writeReadCommands emu memTypes readGroups c of
             (Some e, c') \<Rightarrow> (Inl e, c')
           | (None, c') \<Rightarrow> readReplies emu memTypes readGroups mrsp c'))"

text \<open>
  For the statement of the result. The memory type of a read; the memory types of the
  reads in the order of their first use; the place of a read's group in that order; and
  the number of bytes requested before a read by the earlier reads of its group.
\<close>

definition memTypeOf :: "MemoryTypeFor \<Rightarrow> MemoryReadRequest \<Rightarrow> string" where
  "memTypeOf mtf read = fst (mtf (rr_RequestAddress read))"

definition memTypeOrder :: "MemoryTypeFor \<Rightarrow> MemoryReadRequest list \<Rightarrow> string list" where
  "memTypeOrder mtf reads =
     fold (\<lambda>read acc. if memTypeOf mtf read \<in> set acc then acc else acc @ [memTypeOf mtf read])
          reads []"

definition groupIndex :: "MemoryTypeFor \<Rightarrow> MemoryReadRequest list \<Rightarrow> nat \<Rightarrow> nat" where
  "groupIndex mtf reads j =
     length (takeWhile (\<lambda>m. m \<noteq> memTypeOf mtf (reads ! j)) (memTypeOrder mtf reads))"

definition groupOffset :: "MemoryTypeFor \<Rightarrow> MemoryReadRequest list \<Rightarrow> nat \<Rightarrow> nat" where
  "groupOffset mtf reads j =
     nat (sum_list (map rr_Size
            (filter (\<lambda>read. memTypeOf mtf read = memTypeOf mtf (reads ! j)) (take j reads))))"

text \<open>
  An emulator for illustration: it answers every \<open>CORE_READ\<close> with the three bytes
  1, 2, 3. All addresses are in the memory WRAM, at the offset of their address.
\<close>

definition emu_three_bytes :: nwa where
  "emu_three_bytes =
     \<lparr> nwa_SetWriteDeadline = (\<lambda>sent. None),
       nwa_Write = (\<lambda>sent. None),
       nwa_SetReadDeadline = (\<lambda>sent n. None),
       nwa_incoming = (\<lambda>sent n. ([NUL, NUL, NUL, NUL, CHR 0x03, CHR 0x01, CHR 0x02, CHR 0x03], EOF)) \<rparr>"

definition wram_only :: MemoryTypeFor where
  "wram_only a = (''WRAM'', 0xF50000 + Address a, Address a)"

definition two_reads :: "MemoryReadRequest list" where
  "two_reads =
     [\<lparr> rr_RequestAddress = \<lparr> Address = 0x10, AddressSpace = AddressSpace_FxPakPro,
                               MemoryMapping = MemoryMapping_Unknown \<rparr>, rr_Size = 2 \<rparr>,
      \<lparr> rr_RequestAddress = \<lparr> Address = 0x20, AddressSpace = AddressSpace_FxPakPro,
                               MemoryMapping = MemoryMapping_Unknown \<rparr>, rr_Size = 4 \<rparr>]"

section \<open>NWA MultiReadMemory: notions for the proofs\<close>

text \<open>
  The body of the loop over the regions of a group; a region whose buffer is in range and
  still all zero; the response and the region that the first loop makes for a read; the
  regions of a memory type among the reads from index \<open>j\<close> on; the step that enters a
  memory type at its first use; and the conditions under which the groups do not touch
  each other's buffers (\<open>ty\<close> gives the memory type of the read at an index).
\<close>

definition region_step :: "byte list \<Rightarrow> memRegion \<Rightarrow> int \<Rightarrow> MemoryReadResponse list \<Rightarrow> MemoryReadResponse list" where
  "region_step bin region offset mrsp =
     (if int (length bin) \<le> offset then mrsp
         else if int (length bin) - offset < mr_Size region then
           copy_to mrsp (mr_Data region) (slice bin offset (offset + (int (length bin) - offset)))
         else copy_to mrsp (mr_Data region) (slice bin offset (offset + mr_Size region)))"

definition zeroed :: "MemoryReadResponse list \<Rightarrow> memRegion \<Rightarrow> bool" where
  "zeroed mrsp x = (mr_Data x < length mrsp \<and> 0 \<le> mr_Size x \<and>
                    rs_Data (mrsp ! mr_Data x) = replicate (nat (mr_Size x)) 0)"

definition initResponse :: "MemoryTypeFor \<Rightarrow> MemoryReadRequest \<Rightarrow> MemoryReadResponse" where
  "initResponse mtf read =
     \<lparr> rs_RequestAddress = rr_RequestAddress read,
       rs_DeviceAddress =
         \<lparr> Address = fst (snd (mtf (rr_RequestAddress read))), AddressSpace = AddressSpace_FxPakPro,
           MemoryMapping = MemoryMapping (rr_RequestAddress read) \<rparr>,
       rs_Data = replicate (nat (rr_Size read)) 0 \<rparr>"

definition mkRegion :: "MemoryTypeFor \<Rightarrow> MemoryReadRequest \<Rightarrow> nat \<Rightarrow> memRegion" where
  "mkRegion mtf read j =
     \<lparr> mr_MemoryType = memTypeOf mtf read, mr_Offset = snd (snd (mtf (rr_RequestAddress read))),
       mr_Size = rr_Size read, mr_Data = j \<rparr>"

fun regionsFrom :: "MemoryTypeFor \<Rightarrow> string \<Rightarrow> nat \<Rightarrow> MemoryReadRequest list \<Rightarrow> memRegion list" where
  "regionsFrom mtf m j [] = []"
| "regionsFrom mtf m j (read # rest) =
     (if memTypeOf mtf read = m then [mkRegion mtf read j] else []) @ regionsFrom mtf m (Suc j) rest"

definition addType :: "MemoryTypeFor \<Rightarrow> MemoryReadRequest \<Rightarrow> string list \<Rightarrow> string list" where
  "addType mtf read acc = (if memTypeOf mtf read \<in> set acc then acc else acc @ [memTypeOf mtf read])"

definition owned :: "(nat \<Rightarrow> string) \<Rightarrow> (string \<rightharpoonup> memRegion list) \<Rightarrow> string list \<Rightarrow> bool" where
  "owned ty rg mts = (\<forall>m\<in>set mts. \<forall>x\<in>set (regions_of rg m). ty (mr_Data x) = m)"

definition groups_ok ::
  "(nat \<Rightarrow> string) \<Rightarrow> (string \<rightharpoonup> memRegion list) \<Rightarrow> string list \<Rightarrow> MemoryReadResponse list \<Rightarrow> bool" where
  "groups_ok ty rg mts mrsp =
     (distinct mts \<and> owned ty rg mts \<and>
      (\<forall>m\<in>set mts. distinct (map mr_Data (regions_of rg m)) \<and>
                    (\<forall>x\<in>set (regions_of rg m). zeroed mrsp x)))"

section \<open>Address translation: results\<close>

lemma from_mapper_not_unknown: "from_mapper r \<noteq> Inl ErrUnknownMapping"
  by (cases r) (simp_all add: from_mapper_def)

text \<open>
  Claim C5. \<open>TranslateAddress\<close> fails with \<open>ErrUnknownMapping\<close> exactly when the
  source and device spaces are SnesABus and FxPakPro (in either direction) and the
  tuple's mapping is Unknown. When the source space is Raw, or the device space is Raw,
  or both spaces are the same, the input address comes back unchanged without an error,
  whatever the address and the mapping are.
\<close>

theorem TranslateAddress_unknown_mapping:
  "(TranslateAddress M src dev = Inl ErrUnknownMapping) =
     (((AddressSpace src = AddressSpace_SnesABus \<and> dev = AddressSpace_FxPakPro) \<or>
       (AddressSpace src = AddressSpace_FxPakPro \<and> dev = AddressSpace_SnesABus)) \<and>
      MemoryMapping src = MemoryMapping_Unknown)
   \<and> (AddressSpace src = AddressSpace_Raw \<or> dev = AddressSpace_Raw \<or> AddressSpace src = dev
        \<longrightarrow> TranslateAddress M src dev = Inr (Address src))"
  by (cases "AddressSpace src"; cases dev; cases "MemoryMapping src")
     (simp_all add: TranslateAddress_def from_mapper_not_unknown)

theorem TranslateAddress_unknown_mapping_witness:
  "TranslateAddress identity_mappers
      \<lparr> Address = 0x7E0123, AddressSpace = AddressSpace_SnesABus,
        MemoryMapping = MemoryMapping_Unknown \<rparr> AddressSpace_FxPakPro = Inl ErrUnknownMapping
   \<and> TranslateAddress identity_mappers
      \<lparr> Address = 0x7E0123, AddressSpace = AddressSpace_SnesABus,
        MemoryMapping = MemoryMapping_Unknown \<rparr> AddressSpace_Raw = Inr 0x7E0123"
  using TranslateAddress_unknown_mapping
    [of identity_mappers "\<lparr> Address = 0x7E0123, AddressSpace = AddressSpace_SnesABus,
        MemoryMapping = MemoryMapping_Unknown \<rparr>" AddressSpace_FxPakPro]
    TranslateAddress_unknown_mapping
    [of identity_mappers "\<lparr> Address = 0x7E0123, AddressSpace = AddressSpace_SnesABus,
        MemoryMapping = MemoryMapping_Unknown \<rparr>" AddressSpace_Raw]
  by simp

section \<open>FX Pak Pro memory domains: results\<close>

lemma domainDescByType_CartROM:
  "domainDescByType SNESCartROM = Some (domainDescs ! 0)"
  by (simp add: domainDescByType_def domainDescs_def domainRefs_def)

text \<open>
  Claim C8. The FX Pak Pro \<open>MemoryDomains\<close> answers with the same table for every
  device: the seven SNES domains CARTROM, CARTRAM, WRAM, APURAM, VRAM, CGRAM, OAM, then
  FXPAKPRO_SNES (start 0, size 0x1000000) and FXPAKPRO_CMD (start 0x1000000, size
  0x1000000). Every entry is readable; VRAM, CGRAM and OAM are not writeable.
\<close>

theorem MemoryDomains_static_table:
  "MemoryDomains d request = MemoryDomains d' request
   \<and> mdrsp_Uri (MemoryDomains d request) = mdreq_Uri request
   \<and> map (ref_Name \<circ> md_Domain) (mdrsp_Domains (MemoryDomains d request)) =
       [Some ''CARTROM'', Some ''CARTRAM'', Some ''WRAM'', Some ''APURAM'', Some ''VRAM'',
        Some ''CGRAM'', Some ''OAM'', Some ''FXPAKPRO_SNES'', Some ''FXPAKPRO_CMD'']
   \<and> map (ref_Type \<circ> md_Domain) (mdrsp_Domains (MemoryDomains d request)) =
       [MemoryDomainRef_Snes SNESCartROM, MemoryDomainRef_Snes SNESCartRAM,
        MemoryDomainRef_Snes SNESWorkRAM, MemoryDomainRef_Snes SNESAPURAM,
        MemoryDomainRef_Snes SNESVideoRAM, MemoryDomainRef_Snes SNESCGRAM,
        MemoryDomainRef_Snes SNESObjectAttributeMemory,
        MemoryDomainRef_Snes SNESCoreSpecificMemory,
        MemoryDomainRef_Snes SNESCoreSpecificMemory]
   \<and> map md_Size (mdrsp_Domains (MemoryDomains d request)) =
       [0xE00000, 0x100000, 0x20000, 0x10000, 0x10000, 0x200, 0x220, 0x1000000, 0x1000000]
   \<and> map start_desc domainDescs =
       [0, 0xE00000, 0xF50000, 0xF80000, 0xF70000, 0xF90000, 0xF90200, 0, 0x1000000]
   \<and> map md_Readable (mdrsp_Domains (MemoryDomains d request)) =
       [True, True, True, True, True, True, True, True, True]
   \<and> map md_Writeable (mdrsp_Domains (MemoryDomains d request)) =
       [True, True, False, False, False, False, False, True, True]"
  by (simp add: MemoryDomains_def domains_def domainDescs_def domainRefs_def)

text \<open>
  What the range checks do establish: an entry whose offset is at or beyond the domain's
  size, or whose end computed without overflow lies beyond it, makes the whole request
  fail with InvalidArgument, and then the device is not called.
\<close>

lemma checkReads_rejects:
  assumes "r \<in> set reads"
    and "unat (as_Address r) \<ge> unat (size_desc dm) \<or>
         (unat (as_Address r) + unat (as_Size r) < 2 ^ 32 \<and>
          unat (as_Address r) + unat (as_Size r) > unat (size_desc dm))"
  shows "\<exists>m. checkReads dm reads = Inl (Status InvalidArgument m)"
  using assms
proof (induction reads)
  case Nil
  then show ?case by simp
next
  case (Cons x xs)
  show ?case
  proof (cases "as_Address x \<ge> size_desc dm \<or> as_Address x + as_Size x > size_desc dm")
    case True
    then show ?thesis by auto
  next
    case False
    have "r \<noteq> x"
    proof
      assume "r = x"
      with Cons.prems(2) False show False
        by (auto simp: word_le_nat_alt word_less_nat_alt unat_word_ariths not_le not_less)
    qed
    with Cons.prems have "r \<in> set xs" by simp
    from Cons.IH [OF this Cons.prems(2)] False show ?thesis by auto
  qed
qed

lemma lookupDomain_error:
  "lookupDomain ToUpper dref = Inl e \<Longrightarrow> e = Panic \<or> (\<exists>m. e = Status InvalidArgument m)"
  by (auto simp: lookupDomain_def Let_def split: option.splits MemoryDomainRefType.splits if_splits)

lemma MultiDomainRead_no_call_on_reject:
  "domainReadGroups ToUpper requests = Inl e \<Longrightarrow> MultiDomainRead ToUpper mrm requests = (Inl e, [])"
  by (simp add: MultiDomainRead_def)

lemma MultiDomainRead_last_byte_accepted:
  "checkReads dm [\<lparr> as_Address = size_desc dm - 1, as_Size = 1 \<rparr>] =
     (if size_desc dm = 0 then
        Inl (Status InvalidArgument
              (StartAddressExceeds (size_desc dm - 1) (ref_Name (domainRef dm)) (size_desc dm)))
      else
        Inr ([\<lparr> rr_RequestAddress =
                  \<lparr> Address = start_desc dm + (size_desc dm - 1),
                    AddressSpace = AddressSpace_FxPakPro,
                    MemoryMapping = MemoryMapping_Unknown \<rparr>, rr_Size = 1 \<rparr>],
             [\<lparr> ad_Address = size_desc dm - 1, ad_Data = None \<rparr>]))"
proof (cases "size_desc dm = 0")
  case True
  then show ?thesis by simp
next
  case False
  then have "size_desc dm - 1 < size_desc dm"
    by (simp add: word_less_nat_alt unat_minus_one unat_gt_0)
  then show ?thesis using False by (simp add: not_le)
qed

text \<open>
  Claim C2, at the input where the code departs from it. A read of CARTROM (size
  0xE00000) at offset 1 with size 0xFFFFFFFF ends far beyond the domain. The end
  \<open>read.Address+read.Size\<close> is computed in \<open>uint32\<close> and wraps to 0, both checks pass,
  and the device's \<open>MultiReadMemory\<close> is called for 4294967295 bytes at address 1.
\<close>

theorem MultiDomainRead_end_check_wraps:
  "snd (MultiDomainRead ToUpper mrm
          [\<lparr> grq_Domain = Some \<lparr> ref_Name = None, ref_Type = MemoryDomainRef_Snes SNESCartROM \<rparr>,
             grq_Reads = [\<lparr> as_Address = 1, as_Size = 0xFFFFFFFF \<rparr>] \<rparr>]) =
     [[\<lparr> rr_RequestAddress =
          \<lparr> Address = 1, AddressSpace = AddressSpace_FxPakPro,
            MemoryMapping = MemoryMapping_Unknown \<rparr>,
         rr_Size = 4294967295 \<rparr>]]"
  by (simp add: MultiDomainRead_def lookupDomain_def domainDescByType_CartROM domainDescs_def
        word_le_nat_alt word_less_nat_alt split: sum.splits prod.splits)

section \<open>NWA reply parser: results\<close>

lemma scanLoop_append:
  "\<forall>l\<in>set ls. l \<noteq> [] \<Longrightarrow>
   scanLoop (ls @ ls') ascii item = (case scanLoop ls ascii item of (a, i) \<Rightarrow> scanLoop ls' a i)"
  by (induction ls arbitrary: ascii item) simp_all

lemma SplitN_colon_2_no_colon: "CHR '':'' \<notin> set l \<Longrightarrow> SplitN_colon_2 l = [l]"
  by (simp add: SplitN_colon_2_def)

lemma SplitN_colon_2_first_colon:
  assumes "CHR '':'' \<notin> set k"
  shows "SplitN_colon_2 (k @ CHR '':'' # v) = [k, v]"
proof -
  from assms have "\<forall>x\<in>set k. x \<noteq> CHR '':''" by auto
  then show ?thesis
    by (simp add: SplitN_colon_2_def takeWhile_append2 dropWhile_append2)
qed

text \<open>
  Claim C1, at the reply of the specification. The body
  \<open>id:1\n name:foo\n \n id:2\n name:bar\n \n\<close> has an empty line after \<open>name:foo\<close>,
  and an empty line ends the reply: the parser returns the first item only, not the two
  items of the claim. The same holds when \<open>parseResponse\<close> reads the reply from its
  leading line feed on.
\<close>

theorem parseResponse_literal_reply_one_item:
  "parseAscii (''id:1'' @ [LF] @ ''name:foo'' @ [LF, LF] @ ''id:2'' @ [LF] @ ''name:bar'' @ [LF, LF])
     = [[''id'' \<mapsto> ''1'', ''name'' \<mapsto> ''foo'']]
   \<and> parseAscii (''id:1'' @ [LF] @ ''name:foo'' @ [LF, LF] @ ''id:2'' @ [LF] @ ''name:bar'' @ [LF, LF])
     \<noteq> [[''id'' \<mapsto> ''1'', ''name'' \<mapsto> ''foo''], [''id'' \<mapsto> ''2'', ''name'' \<mapsto> ''bar'']]
   \<and> parseResponse
        (LF # ''id:1'' @ [LF] @ ''name:foo'' @ [LF, LF] @ ''id:2'' @ [LF] @ ''name:bar'' @ [LF, LF])
        EOF
     = Inr (Ascii [[''id'' \<mapsto> ''1'', ''name'' \<mapsto> ''foo'']])"
  by (simp add: parseResponse_def parseAscii_def appendLast_def MaxScanTokenSize_def dropCR_def
        lineKey_def lineValue_def SplitN_colon_2_def)

text \<open>
  Claim C1 as amended. In every reply, at every line that is not empty: when the key of
  the line is already in the current item, the current item is appended to the list and a
  new item starts with the line's entry; otherwise the entry joins the current item. The
  list returned when the reply ends there has the closed item followed by the new one. An
  empty line ends the reply: the loop stops there in the state it has reached, whatever
  lines follow. So the two items of the example are delimited by the
  repeated key \<open>id\<close> alone: the body \<open>id:1\n name:foo\n id:2\n name:bar\n \n\<close> yields
  exactly the items \<open>{id:1, name:foo}\<close> and \<open>{id:2, name:bar}\<close>.
\<close>

theorem parseResponse_repeated_key_starts_item:
  "\<forall>l'\<in>set ls. l' \<noteq> [] \<Longrightarrow> l \<noteq> [] \<Longrightarrow> scanLoop ls [] Map.empty = (ascii, item) \<Longrightarrow>
   scanLoop (ls @ [l]) [] Map.empty =
     (if item (lineKey l) \<noteq> None
      then (ascii @ [item], [lineKey l \<mapsto> lineValue l])
      else (ascii, item(lineKey l \<mapsto> lineValue l)))
   \<and> appendLast (scanLoop (ls @ [l]) [] Map.empty) =
     (if item (lineKey l) \<noteq> None
      then ascii @ [item, [lineKey l \<mapsto> lineValue l]]
      else ascii @ [item(lineKey l \<mapsto> lineValue l)])
   \<and> parseResponse
        (LF # ''id:1'' @ [LF] @ ''name:foo'' @ [LF] @ ''id:2'' @ [LF] @ ''name:bar'' @ [LF, LF]) EOF
     = Inr (Ascii [[''id'' \<mapsto> ''1'', ''name'' \<mapsto> ''foo''],
                   [''id'' \<mapsto> ''2'', ''name'' \<mapsto> ''bar'']])
   \<and> scanLoop (ls @ [] # rest) [] Map.empty = (ascii, item)"
proof -
  assume ls: "\<forall>l'\<in>set ls. l' \<noteq> []" and l: "l \<noteq> []"
    and st: "scanLoop ls [] Map.empty = (ascii, item)"
  have step: "scanLoop (ls @ [l]) [] Map.empty =
     (if item (lineKey l) \<noteq> None
      then (ascii @ [item], [lineKey l \<mapsto> lineValue l])
      else (ascii, item(lineKey l \<mapsto> lineValue l)))"
    using l st by (simp add: scanLoop_append [OF ls])
  have last: "appendLast (scanLoop (ls @ [l]) [] Map.empty) =
     (if item (lineKey l) \<noteq> None
      then ascii @ [item, [lineKey l \<mapsto> lineValue l]]
      else ascii @ [item(lineKey l \<mapsto> lineValue l)])"
    by (simp add: step appendLast_def)
  have example: "parseResponse
        (LF # ''id:1'' @ [LF] @ ''name:foo'' @ [LF] @ ''id:2'' @ [LF] @ ''name:bar'' @ [LF, LF]) EOF
     = Inr (Ascii [[''id'' \<mapsto> ''1'', ''name'' \<mapsto> ''foo''],
                   [''id'' \<mapsto> ''2'', ''name'' \<mapsto> ''bar'']])"
    by (simp add: parseResponse_def parseAscii_def appendLast_def MaxScanTokenSize_def
          dropCR_def lineKey_def lineValue_def SplitN_colon_2_def)
  have stop: "scanLoop (ls @ [] # rest) [] Map.empty = (ascii, item)"
    using st by (simp add: scanLoop_append [OF ls])
  from step last example stop show ?thesis by blast
qed

theorem parseResponse_repeated_key_starts_item_witness:
  "appendLast (scanLoop ([''id:1'', ''name:foo''] @ [''id:2'']) [] Map.empty) =
     [[''id'' \<mapsto> ''1'', ''name'' \<mapsto> ''foo''], [''id'' \<mapsto> ''2'']]"
proof -
  have a: "\<forall>l'\<in>set [''id:1'', ''name:foo'']. l' \<noteq> []" by simp
  have b: "''id:2'' \<noteq> []" by simp
  have c: "scanLoop [''id:1'', ''name:foo''] [] Map.empty =
             ([], [''id'' \<mapsto> ''1'', ''name'' \<mapsto> ''foo''])"
    by (simp add: lineKey_def lineValue_def SplitN_colon_2_def)
  have k: "lineKey ''id:2'' = ''id''" and v: "lineValue ''id:2'' = ''2''"
    by (simp_all add: lineKey_def lineValue_def SplitN_colon_2_def)
  have th: "appendLast (scanLoop ([''id:1'', ''name:foo''] @ [''id:2'']) [] Map.empty) =
     (if [''id'' \<mapsto> ''1'', ''name'' \<mapsto> ''foo''] (lineKey ''id:2'') \<noteq> None
      then [] @ [[''id'' \<mapsto> ''1'', ''name'' \<mapsto> ''foo''], [lineKey ''id:2'' \<mapsto> lineValue ''id:2'']]
      else [] @ [[''id'' \<mapsto> ''1'', ''name'' \<mapsto> ''foo'', lineKey ''id:2'' \<mapsto> lineValue ''id:2'']])"
    using parseResponse_repeated_key_starts_item [OF a b c] by blast
  show ?thesis
    by (subst th) (simp add: k v)
qed

text \<open>
  Claim C9. A line is cut at its first colon only. A line without a colon gives the whole
  line as the key and the empty string as the value; in a line with a colon the key is
  what stands before the first colon and the value is all that follows it, later colons
  included. After the loop body has run on a line that is not empty, in any state of
  the loop, the current item holds that value under that key.
\<close>

theorem parseResponse_splits_at_first_colon:
  "(CHR '':'' \<notin> set l \<longrightarrow> lineKey l = l \<and> lineValue l = [])
   \<and> (CHR '':'' \<notin> set k \<longrightarrow>
        lineKey (k @ CHR '':'' # v) = k \<and> lineValue (k @ CHR '':'' # v) = v)
   \<and> (l \<noteq> [] \<longrightarrow> snd (scanLoop [l] ascii item) (lineKey l) = Some (lineValue l))"
  by (simp add: lineKey_def lineValue_def SplitN_colon_2_no_colon SplitN_colon_2_first_colon)

theorem parseResponse_splits_at_first_colon_witness:
  "lineKey ''ok'' = ''ok'' \<and> lineValue ''ok'' = []
   \<and> lineKey ''time:12:30:05'' = ''time'' \<and> lineValue ''time:12:30:05'' = ''12:30:05''
   \<and> snd (scanLoop [''time:12:30:05''] [] Map.empty) ''time'' = Some ''12:30:05''"
  using parseResponse_splits_at_first_colon [of "''ok''" "''time''" "''12:30:05''" "[]" Map.empty]
    parseResponse_splits_at_first_colon
      [of "''time:12:30:05''" "''time''" "''12:30:05''" "[]" Map.empty]
  by simp

section \<open>UDP client: results\<close>

text \<open>
  In every client that the methods make from a new one, the connection pointer is nil
  exactly when the client is not connected; and a closed client stays closed.
\<close>

lemma Close_conn_inv: "conn_inv c \<Longrightarrow> conn_inv (fst (snd (Close os c)))"
  by (simp add: Close_def conn_inv_def case_prod_beta)

lemma Close_closes: "isConnected c \<Longrightarrow> isClosed (fst (snd (Close os c)))"
  by (simp add: Close_def case_prod_beta)

lemma Close_keeps_closed: "isClosed c \<Longrightarrow> isClosed (fst (snd (Close os c)))"
  by (simp add: Close_def case_prod_beta)

lemma closeOnFailure_conn_inv: "conn_inv c \<Longrightarrow> conn_inv (fst (closeOnFailure os e c))"
proof -
  assume "conn_inv c"
  then have 1: "conn_inv (fst (snd (Close os c)))" by (simp add: Close_conn_inv)
  then have 2: "conn_inv (fst (snd (Close os (fst (snd (Close os c))))))"
    by (simp add: Close_conn_inv)
  from \<open>conn_inv c\<close> 1 2 show ?thesis
    by (simp add: closeOnFailure_def case_prod_beta)
qed

lemma closeOnFailure_closes:
  assumes "isConnected c" and "isTimeoutError e \<or> Is_ErrClosed e"
  shows "isClosed (fst (closeOnFailure os e c))"
proof -
  have 1: "isClosed (fst (snd (Close os c)))" using assms(1) by (rule Close_closes)
  then have 2: "isClosed (fst (snd (Close os (fst (snd (Close os c))))))"
    by (rule Close_keeps_closed)
  from assms(2) 1 2 show ?thesis
    by (auto simp: closeOnFailure_def case_prod_beta)
qed

lemma closeOnFailure_keeps_closed: "isClosed c \<Longrightarrow> isClosed (fst (closeOnFailure os e c))"
proof -
  assume c: "isClosed c"
  then have 1: "isClosed (fst (snd (Close os c)))" by (rule Close_keeps_closed)
  then have 2: "isClosed (fst (snd (Close os (fst (snd (Close os c))))))"
    by (rule Close_keeps_closed)
  from c 1 2 show ?thesis
    by (simp add: closeOnFailure_def case_prod_beta)
qed

lemma WriteWithDeadline_conn_inv:
  "conn_inv c \<Longrightarrow> conn_inv (fst (snd (WriteWithDeadline os m deadline c)))"
  by (simp add: WriteWithDeadline_def case_prod_beta closeOnFailure_conn_inv split: option.splits)

lemma ReadWithDeadline_conn_inv:
  "conn_inv c \<Longrightarrow> conn_inv (fst (snd (ReadWithDeadline os deadline c)))"
  by (simp add: ReadWithDeadline_def case_prod_beta closeOnFailure_conn_inv
        split: option.splits sum.splits)

lemma ReadWithDeadlineInto_conn_inv:
  "conn_inv c \<Longrightarrow> conn_inv (fst (snd (ReadWithDeadlineInto os deadline n c)))"
  by (simp add: ReadWithDeadlineInto_def case_prod_beta closeOnFailure_conn_inv
        split: option.splits sum.splits)

lemma WriteThenRead_state:
  "fst (snd (WriteThenRead os m deadline c)) =
     (if isClosed c then c
      else case fst (WriteWithDeadline os m deadline c) of
             Return None \<Rightarrow>
               fst (snd (ReadWithDeadline os deadline (fst (snd (WriteWithDeadline os m deadline c)))))
           | _ \<Rightarrow> fst (snd (WriteWithDeadline os m deadline c)))"
  by (cases "WriteWithDeadline os m deadline c")
     (auto simp: WriteThenRead_def case_prod_beta split: outcome.splits option.splits)

lemma WriteThenRead_conn_inv:
  "conn_inv c \<Longrightarrow> conn_inv (fst (snd (WriteThenRead os m deadline c)))"
  by (simp add: WriteThenRead_state WriteWithDeadline_conn_inv ReadWithDeadline_conn_inv
        split: outcome.splits option.splits)

lemma after_call_conn_inv: "conn_inv c \<Longrightarrow> conn_inv (after_call os call c)"
proof (cases call)
  case (M_Connect addr)
  assume "conn_inv c"
  then show ?thesis
    by (auto simp: M_Connect Connect_def conn_inv_def split: sum.splits)
next
  case M_Disconnect
  assume "conn_inv c"
  then show ?thesis
    by (simp add: M_Disconnect Disconnect_def case_prod_beta Close_conn_inv)
next
  case (M_MakeUDPClient name)
  assume "conn_inv c"
  then show ?thesis by (simp add: M_MakeUDPClient MakeUDPClient_def conn_inv_def)
next
  case (M_MuteLog muted)
  assume "conn_inv c"
  then show ?thesis by (simp add: M_MuteLog MuteLog_def conn_inv_def)
qed (simp_all add: Close_conn_inv WriteWithDeadline_conn_inv
       ReadWithDeadline_conn_inv ReadWithDeadlineInto_conn_inv WriteThenRead_conn_inv)

lemma after_calls_conn_inv: "conn_inv c \<Longrightarrow> conn_inv (after_calls run c)"
  by (induction run arbitrary: c) (auto simp: after_call_conn_inv)

lemma NewUDPClient_conn_inv: "conn_inv (NewUDPClient name)"
  by (simp add: conn_inv_def NewUDPClient_def)

lemma WriteWithDeadline_keeps_closed:
  "isClosed c \<Longrightarrow> isClosed (fst (snd (WriteWithDeadline os m deadline c)))"
  by (simp add: WriteWithDeadline_def)

lemma ReadWithDeadline_keeps_closed:
  "isClosed c \<Longrightarrow> isClosed (fst (snd (ReadWithDeadline os deadline c)))"
  by (simp add: ReadWithDeadline_def)

lemma after_call_keeps_closed: "isClosed c \<Longrightarrow> isClosed (after_call os call c)"
proof (cases call)
  case M_Disconnect
  assume "isClosed c"
  then show ?thesis
    by (simp add: M_Disconnect Disconnect_def case_prod_beta Close_keeps_closed)
qed (simp_all add: MakeUDPClient_def MuteLog_def Connect_def Close_keeps_closed
       WriteWithDeadline_def ReadWithDeadline_def ReadWithDeadlineInto_def WriteThenRead_def
       split: sum.splits)

lemma after_calls_keeps_closed: "isClosed c \<Longrightarrow> isClosed (after_calls run c)"
  by (induction run arbitrary: c) (auto simp: after_call_keeps_closed)

text \<open>
  \<open>Close\<close> returns at once on a client that is not connected: a client that was never
  connected is not marked closed by it.
\<close>

lemma Close_unconnected: "Close os (NewUDPClient name) = (None, NewUDPClient name, [])"
  by (simp add: Close_def NewUDPClient_def)

lemma closed_fails_fast:
  "isClosed c \<Longrightarrow>
     WriteWithDeadline os m deadline c = (Return (Some ErrClosed), c, []) \<and>
     ReadWithDeadline os deadline c = (Return (Inl ErrClosed), c, []) \<and>
     WriteThenRead os m deadline c = (Return (Inl ErrClosed), c, [])"
  by (simp add: WriteWithDeadline_def ReadWithDeadline_def WriteThenRead_def)

lemma WriteWithDeadline_failure_closes:
  assumes "conn_inv c"
    and "WriteWithDeadline os m deadline c = (r, c', calls)"
    and "Write m \<in> set calls"
    and "Write_result os = Some e"
    and "isTimeoutError e \<or> Is_ErrClosed e"
  shows "r = Return (Some e) \<and> isClosed c'"
proof -
  from assms(2,3) have opened: "\<not> isClosed c" "udp_c c \<noteq> None" "SetWriteDeadline_result os = None"
    by (auto simp: WriteWithDeadline_def split: if_splits option.splits)
  with assms(1) have "isConnected c" by (auto simp: conn_inv_def)
  then have "isClosed (fst (closeOnFailure os e c))"
    using assms(5) by (rule closeOnFailure_closes)
  with assms(2,4) opened show ?thesis
    by (auto simp: WriteWithDeadline_def case_prod_beta)
qed

lemma ReadWithDeadline_failure_closes:
  assumes "conn_inv c"
    and "ReadWithDeadline os deadline c = (r, c', calls)"
    and "ReadFromUDP \<in> set calls"
    and "ReadFromUDP_result os = Inl e"
    and "isTimeoutError e \<or> Is_ErrClosed e"
  shows "r = Return (Inl e) \<and> isClosed c'"
proof -
  from assms(2,3) have opened: "\<not> isClosed c" "udp_c c \<noteq> None" "SetReadDeadline_result os = None"
    by (auto simp: ReadWithDeadline_def split: if_splits option.splits)
  with assms(1) have "isConnected c" by (auto simp: conn_inv_def)
  then have "isClosed (fst (closeOnFailure os e c))"
    using assms(5) by (rule closeOnFailure_closes)
  with assms(2,4) opened show ?thesis
    by (auto simp: ReadWithDeadline_def case_prod_beta)
qed

lemma closeOnFailure_calls: "x \<in> set (snd (closeOnFailure os e c)) \<Longrightarrow> x = CloseConn"
  by (auto simp: closeOnFailure_def Close_def case_prod_beta split: if_splits)

lemma WriteThenRead_failure_closes:
  assumes "conn_inv c"
    and "WriteThenRead os m deadline c = (r, c', calls)"
    and "(Write m \<in> set calls \<and> Write_result os = Some e) \<or>
         (ReadFromUDP \<in> set calls \<and> ReadFromUDP_result os = Inl e)"
    and "isTimeoutError e \<or> Is_ErrClosed e"
  shows "r = Return (Inl e) \<and> isClosed c'"
proof -
  from assms(2,3) have opened: "\<not> isClosed c" "udp_c c \<noteq> None" "SetWriteDeadline_result os = None"
    by (auto simp: WriteThenRead_def WriteWithDeadline_def split: if_splits option.splits)
  with assms(1) have "isConnected c" by (auto simp: conn_inv_def)
  then have closes: "isClosed (fst (closeOnFailure os e c))"
    using assms(4) by (rule closeOnFailure_closes)
  show ?thesis
  proof (cases "Write_result os")
    case (Some e')
    with assms(2,3) opened have "e' = e"
      by (auto simp: WriteThenRead_def WriteWithDeadline_def case_prod_beta
            dest: closeOnFailure_calls)
    with Some assms(2) opened closes show ?thesis
      by (auto simp: WriteThenRead_def WriteWithDeadline_def case_prod_beta)
  next
    case None
    with assms(3) have rd: "ReadFromUDP_result os = Inl e" by auto
    from None assms(2) opened
    have "ReadWithDeadline os deadline c = (r, c', drop 2 calls)"
      by (auto simp: WriteThenRead_def WriteWithDeadline_def case_prod_beta)
    moreover from None assms(2,3) opened rd have "ReadFromUDP \<in> set (drop 2 calls)"
      by (auto simp: WriteThenRead_def WriteWithDeadline_def ReadWithDeadline_def case_prod_beta
            split: option.splits)
    ultimately show ?thesis
      using ReadWithDeadline_failure_closes [OF assms(1) _ _ rd assms(4)] by blast
  qed
qed

text \<open>
  Claim C10. Let \<open>c\<close> be a client that the package's methods have made from a new one.
  When \<open>c\<close> is closed, \<open>WriteWithDeadline\<close>, \<open>ReadWithDeadline\<close> and
  \<open>WriteThenRead\<close> return \<open>net.ErrClosed\<close>, make no socket call and leave the client
  as it is. When the socket write of \<open>WriteWithDeadline\<close>, the socket read of
  \<open>ReadWithDeadline\<close>, or either of them within \<open>WriteThenRead\<close>, fails with a
  time-out or with an error that is \<open>net.ErrClosed\<close>, the method returns that error and
  the client is closed afterwards. A closed client stays closed whatever is called later,
  so after the first such failure these three methods fail with \<open>net.ErrClosed\<close>
  without a socket call.
\<close>

theorem UDPClient_closed_fails_fast:
  assumes "c = after_calls run (NewUDPClient name)"
  shows
    "(isClosed c \<longrightarrow>
        WriteWithDeadline os m deadline c = (Return (Some ErrClosed), c, []) \<and>
        ReadWithDeadline os deadline c = (Return (Inl ErrClosed), c, []) \<and>
        WriteThenRead os m deadline c = (Return (Inl ErrClosed), c, []))
     \<and> (WriteWithDeadline os m deadline c = (r1, c1, calls1) \<and> Write m \<in> set calls1 \<and>
         Write_result os = Some e \<and> (isTimeoutError e \<or> Is_ErrClosed e)
         \<longrightarrow> r1 = Return (Some e) \<and> isClosed c1)
     \<and> (ReadWithDeadline os deadline c = (r2, c2, calls2) \<and> ReadFromUDP \<in> set calls2 \<and>
         ReadFromUDP_result os = Inl e \<and> (isTimeoutError e \<or> Is_ErrClosed e)
         \<longrightarrow> r2 = Return (Inl e) \<and> isClosed c2)
     \<and> (WriteThenRead os m deadline c = (r3, c3, calls3) \<and>
         ((Write m \<in> set calls3 \<and> Write_result os = Some e) \<or>
          (ReadFromUDP \<in> set calls3 \<and> ReadFromUDP_result os = Inl e)) \<and>
         (isTimeoutError e \<or> Is_ErrClosed e)
         \<longrightarrow> r3 = Return (Inl e) \<and> isClosed c3)
     \<and> (isClosed c \<longrightarrow>
         isClosed (after_calls later c) \<and>
         WriteWithDeadline os' m' deadline' (after_calls later c) =
           (Return (Some ErrClosed), after_calls later c, []) \<and>
         ReadWithDeadline os' deadline' (after_calls later c) =
           (Return (Inl ErrClosed), after_calls later c, []) \<and>
         WriteThenRead os' m' deadline' (after_calls later c) =
           (Return (Inl ErrClosed), after_calls later c, []))"
proof -
  have inv: "conn_inv c"
    unfolding assms by (rule after_calls_conn_inv [OF NewUDPClient_conn_inv])
  have a: "isClosed c \<longrightarrow>
        WriteWithDeadline os m deadline c = (Return (Some ErrClosed), c, []) \<and>
        ReadWithDeadline os deadline c = (Return (Inl ErrClosed), c, []) \<and>
        WriteThenRead os m deadline c = (Return (Inl ErrClosed), c, [])"
    using closed_fails_fast by blast
  have b: "WriteWithDeadline os m deadline c = (r1, c1, calls1) \<and> Write m \<in> set calls1 \<and>
         Write_result os = Some e \<and> (isTimeoutError e \<or> Is_ErrClosed e)
         \<longrightarrow> r1 = Return (Some e) \<and> isClosed c1"
    using WriteWithDeadline_failure_closes [OF inv] by blast
  have c: "ReadWithDeadline os deadline c = (r2, c2, calls2) \<and> ReadFromUDP \<in> set calls2 \<and>
         ReadFromUDP_result os = Inl e \<and> (isTimeoutError e \<or> Is_ErrClosed e)
         \<longrightarrow> r2 = Return (Inl e) \<and> isClosed c2"
    using ReadWithDeadline_failure_closes [OF inv] by blast
  have d: "WriteThenRead os m deadline c = (r3, c3, calls3) \<and>
         ((Write m \<in> set calls3 \<and> Write_result os = Some e) \<or>
          (ReadFromUDP \<in> set calls3 \<and> ReadFromUDP_result os = Inl e)) \<and>
         (isTimeoutError e \<or> Is_ErrClosed e)
         \<longrightarrow> r3 = Return (Inl e) \<and> isClosed c3"
    using WriteThenRead_failure_closes [OF inv] by blast
  have e: "isClosed c \<longrightarrow>
         isClosed (after_calls later c) \<and>
         WriteWithDeadline os' m' deadline' (after_calls later c) =
           (Return (Some ErrClosed), after_calls later c, []) \<and>
         ReadWithDeadline os' deadline' (after_calls later c) =
           (Return (Inl ErrClosed), after_calls later c, []) \<and>
         WriteThenRead os' m' deadline' (after_calls later c) =
           (Return (Inl ErrClosed), after_calls later c, [])"
    using after_calls_keeps_closed [of c later] closed_fails_fast by blast
  from a b c d e show ?thesis by blast
qed

theorem UDPClient_closed_fails_fast_witness:
  "fst (WriteWithDeadline os_write_timeout [1] 5 connected_client) =
     Return (Some (NetError True False))
   \<and> isClosed (fst (snd (WriteWithDeadline os_write_timeout [1] 5 connected_client)))
   \<and> ReadWithDeadline os_ok 6
        (after_calls [(os_write_timeout, M_WriteWithDeadline [1] 5)] connected_client) =
      (Return (Inl ErrClosed),
       after_calls [(os_write_timeout, M_WriteWithDeadline [1] 5)] connected_client, [])"
proof -
  obtain r1 c1 calls1
    where w: "WriteWithDeadline os_write_timeout [1] 5 connected_client = (r1, c1, calls1)"
    by (cases "WriteWithDeadline os_write_timeout [1] 5 connected_client") auto
  have "calls1 = snd (snd (WriteWithDeadline os_write_timeout [1] 5 connected_client))"
    by (simp add: w)
  then have sent: "Write [1] \<in> set calls1"
    by (simp add: WriteWithDeadline_def connected_client_def Connect_def NewUDPClient_def
          os_ok_def os_write_timeout_def case_prod_beta)
  have res: "Write_result os_write_timeout = Some (NetError True False)"
    by (simp add: os_write_timeout_def)
  have bad: "isTimeoutError (NetError True False) \<or> Is_ErrClosed (NetError True False)"
    by simp
  have first: "r1 = Return (Some (NetError True False)) \<and> isClosed c1"
    using UDPClient_closed_fails_fast [OF connected_client_def] w sent res bad by blast
  have later: "after_calls [(os_write_timeout, M_WriteWithDeadline [1] 5)] connected_client = c1"
    by (simp add: w)
  have run: "c1 = after_calls [(os_ok, M_Connect ''192.0.2.1:5000''),
                               (os_write_timeout, M_WriteWithDeadline [1] 5)] (NewUDPClient ''snes'')"
    by (simp add: later [symmetric] connected_client_def)
  have second: "ReadWithDeadline os_ok 6 c1 = (Return (Inl ErrClosed), c1, [])"
    using UDPClient_closed_fails_fast [OF run] first by blast
  from first second show ?thesis
    by (simp add: w later)
qed

section \<open>FX Pak Pro listFiles: results\<close>

lemma length_lsRequest: "length (lsRequest K path) = 512"
  by (simp add: lsRequest_def BigEndian_PutUint32_def Let_def)

lemma received_whole_packet: "length p = 512 \<Longrightarrow> received (lsRequest K path) p = p"
  by (simp add: received_def length_lsRequest)

text \<open>
  Claim C7. Let the request be sent and a first packet of 512 bytes be received. When the
  packet does not start with \<open>USBA\<close>, or its size field (bytes 252 to 255, big-endian) is
  not 1, or its opcode (byte 4) is not \<open>OpRESPONSE\<close>, \<open>listFiles\<close> returns a fatal
  error and the device is closed. When these three are in order and the error byte
  (byte 5) is not zero, \<open>listFiles\<close> returns a non-fatal error and the session stays as
  it was. Neither result depends on how long the device would go on sending.
\<close>

theorem listFiles_header_errors:
  assumes "sendSerial_result port (lsRequest K path) = None"
    and "recvSerial_result port 0 = Inr p"
    and "length p = 512"
  shows
    "(p ! 0 \<noteq> 0x55 \<or> p ! 1 \<noteq> 0x53 \<or> p ! 2 \<noteq> 0x42 \<or> p ! 3 \<noteq> 0x41 \<or>
      BigEndian_Uint32 (take 4 (drop 252 p)) \<noteq> 1 \<or> p ! 4 \<noteq> OpRESPONSE K
      \<longrightarrow> (\<exists>cause. listFiles K port fuel path = Some (Inl (Fatal cause))) \<and>
          session_after (listFiles K port fuel path) Ready = Closed)
     \<and> (p ! 0 = 0x55 \<and> p ! 1 = 0x53 \<and> p ! 2 = 0x42 \<and> p ! 3 = 0x41 \<and>
         BigEndian_Uint32 (take 4 (drop 252 p)) = 1 \<and> p ! 4 = OpRESPONSE K \<and> p ! 5 \<noteq> 0
      \<longrightarrow> listFiles K port fuel path = Some (Inl (NonFatal (Errorf (LsFailed path (p ! 5))))) \<and>
          session_after (listFiles K port fuel path) Ready = Ready)"
proof -
  have sb: "received (lsRequest K path) p = p"
    using assms(3) by (rule received_whole_packet)
  show ?thesis
    using assms(1,2)
    by (auto simp: listFiles_def Let_def sb FatalError_def NonFatalError_def)
qed

theorem listFiles_header_errors_witness:
  "listFiles example_consts (port_answering (header_packet [0x55, 0x53, 0x42, 0x00] 15 0 1)) 0 ''/''
     = Some (Inl (Fatal (Errorf LsNoUSBAHeader)))
   \<and> session_after
        (listFiles example_consts (port_answering (header_packet [0x55, 0x53, 0x42, 0x00] 15 0 1)) 0 ''/'')
        Ready = Closed
   \<and> listFiles example_consts (port_answering (header_packet [0x55, 0x53, 0x42, 0x41] 15 7 1)) 0 ''/''
     = Some (Inl (NonFatal (Errorf (LsFailed ''/'' 7))))
   \<and> session_after
        (listFiles example_consts (port_answering (header_packet [0x55, 0x53, 0x42, 0x41] 15 7 1)) 0 ''/'')
        Ready = Ready"
proof -
  let ?bad = "header_packet [0x55, 0x53, 0x42, 0x00] 15 0 1"
  let ?err = "header_packet [0x55, 0x53, 0x42, 0x41] 15 7 1"
  have s: "sendSerial_result (port_answering q) (lsRequest example_consts ''/'') = None" for q
    by (simp add: port_answering_def)
  have r: "recvSerial_result (port_answering q) 0 = Inr q" for q
    by (simp add: port_answering_def)
  have lb: "length ?bad = 512" and le: "length ?err = 512"
    by (simp_all add: header_packet_def BigEndian_PutUint32_def)
  have b3: "?bad ! 3 \<noteq> 0x41"
    by (simp add: header_packet_def)
  have e: "?err ! 0 = 0x55 \<and> ?err ! 1 = 0x53 \<and> ?err ! 2 = 0x42 \<and> ?err ! 3 = 0x41 \<and>
           ?err ! 4 = OpRESPONSE example_consts \<and> ?err ! 5 \<noteq> 0"
    by (simp add: header_packet_def example_consts_def)
  have e5: "?err ! 5 = 7"
    by (simp add: header_packet_def)
  have sz: "BigEndian_Uint32 (take 4 (drop 252 ?err)) = 1"
    by (simp add: header_packet_def BigEndian_PutUint32_def BigEndian_Uint32_def)
  have fatal: "(\<exists>cause. listFiles example_consts (port_answering ?bad) 0 ''/'' = Some (Inl (Fatal cause)))
      \<and> session_after (listFiles example_consts (port_answering ?bad) 0 ''/'') Ready = Closed"
    using listFiles_header_errors [OF s r lb, of 0] b3 by blast
  have nonfatal: "listFiles example_consts (port_answering ?err) 0 ''/''
        = Some (Inl (NonFatal (Errorf (LsFailed ''/'' (?err ! 5)))))
      \<and> session_after (listFiles example_consts (port_answering ?err) 0 ''/'') Ready = Ready"
    using listFiles_header_errors [OF s r le, of 0] e sz by blast
  have cause: "listFiles example_consts (port_answering ?bad) 0 ''/'' = Some (Inl (Fatal c))
      \<Longrightarrow> c = Errorf LsNoUSBAHeader" for c
    by (simp add: listFiles_def Let_def r s received_whole_packet [OF lb] b3 FatalError_def)
  from fatal nonfatal cause show ?thesis
    by (auto simp: e5)
qed

section \<open>NWA FetchFields: results\<close>

lemma FetchFields_one_value_per_field:
  "FetchFields emu flds c = (Inr vs, c') \<Longrightarrow> length vs = length flds"
  by (auto simp: FetchFields_def Let_def split: prod.splits sum.splits)

lemma FetchFields_DeviceVersion_requests:
  "FetchFields emu_snes9x [Field_DeviceVersion] new_client =
     (Inr [''1.60''], new_client\<lparr> sent := [''EMULATOR_INFO'' @ [LF]], nread := 1 \<rparr>)"
  by (simp add: FetchFields_def request_if_def SendCommandWaitReply_def writeWithDeadline_def
        readResponse_def emu_snes9x_def new_client_def getFirstValue_def
        parseResponse_def parseAscii_def appendLast_def MaxScanTokenSize_def dropCR_def
        lineKey_def lineValue_def SplitN_colon_2_def)

text \<open>
  Claim C4, at the inputs where the code departs from it. \<open>DeviceName\<close> is served by
  \<open>EMULATOR_INFO\<close>, and \<open>CoreName\<close> and \<open>CoreVersion\<close> by \<open>CORE_CURRENT_INFO\<close>.
  Asked for one of these fields alone, \<open>FetchFields\<close> writes nothing to the emulator
  and reads nothing, whatever the emulator is, and returns the empty string as the
  field's value.
\<close>

theorem FetchFields_DeviceName_no_request:
  "FetchFields emu [Field_DeviceName] c = (Inr [[]], c)
   \<and> FetchFields emu [Field_CoreName] c = (Inr [[]], c)
   \<and> FetchFields emu [Field_CoreVersion] c = (Inr [[]], c)
   \<and> FetchFields emu [Field_DeviceName, Field_CoreName, Field_CoreVersion] c = (Inr [[], [], []], c)"
  by (simp add: FetchFields_def request_if_def getFirstValue_def)

section \<open>NWA MemoryDomains: results\<close>









lemmas nwa_example_defs =
  nwa_MemoryDomains_def determineDomainMapping_def FetchFields_def request_if_def
  SendCommandWaitReply_def writeWithDeadline_def readResponse_def emu_bsnes_def emu_broken_def
  new_client_def getFirstValue_def example_globals_def example_golib_def
  example_platform_def parseResponse_def parseAscii_def appendLast_def MaxScanTokenSize_def
  dropCR_def lineKey_def lineValue_def SplitN_colon_2_def clean_def cleanLower_def
  coreMemory_def platformDomain_def item_get_def Let_def

lemma example_core_matches:
  "CoreNameRegex (Matches example_core) ''bsnes'' \<and>
   CoreVersionRegex (Matches example_core) = None \<and>
   CorePlatformRegex (Matches example_core) = None \<and>
   cd_Platform (Define example_core) = ''snes'' \<and>
   CoreToSNIMapping (Define example_core) ''snes_wram'' = Some ''wram''"
  by (simp add: example_core_def)

lemma nwa_MemoryDomains_example:
  "nwa_MemoryDomains example_globals example_golib emu_bsnes request new_client =
     (Inr \<lparr> nrsp_Uri = mdreq_Uri request, nrsp_CoreName = cc_Name example_core,
            nrsp_Domains =
              [\<lparr> nmd_Name = ''wram'', nmd_IsExposed = True, nmd_IsCoreSpecific = False,
                  nmd_Size = 8, nmd_IsReadable = True, nmd_IsWriteable = True \<rparr>] \<rparr>,
      \<lparr> sent = [''CORE_CURRENT_INFO'' @ [LF], ''CORE_MEMORIES'' @ [LF]], nread = 2,
        currentCore = Some example_core,
        currentPlatform = Some example_platform,
        currentDomains =
          Some [\<lparr> dc_Name = ''wram'', dc_Size = 8, IsExposed = True, IsCoreSpecific = False,
                   IsReadable = True, IsWriteable = True \<rparr>] \<rparr>)"
  by (simp add: nwa_example_defs example_core_matches)













text \<open>
  After a failed call \<open>currentCore\<close> still holds the core cached before: the first
  statement of \<open>MemoryDomains\<close> assigns \<open>currentDomains\<close> twice and \<open>currentCore\<close> not
  at all. By the theorem above this changes no reply and no command sent: the next call
  that succeeds overwrites the field.
\<close>

lemma nwa_MemoryDomains_failed_call_state:
  "nwa_MemoryDomains example_globals example_golib emu_broken request
     (snd (nwa_MemoryDomains example_globals example_golib emu_bsnes request new_client)) =
     (Inl (Fatal (Fatal (IO (NetError True False)))),
      \<lparr> sent = [''CORE_CURRENT_INFO'' @ [LF], ''CORE_MEMORIES'' @ [LF],
                ''CORE_CURRENT_INFO'' @ [LF]],
        nread = 2,
        currentCore = Some example_core,
        currentPlatform = None,
        currentDomains = None \<rparr>)"
  by (simp add: nwa_MemoryDomains_example)
     (simp add: nwa_example_defs)

section \<open>NWA MultiReadMemory: results\<close>

text \<open>
  Copying keeps the number of responses and the length of every buffer, and changes the
  buffer of the addressed response only.
\<close>

lemma length_copy_bytes: "length (copy_bytes dst src) = length dst"
  by (simp add: copy_bytes_def)

lemma length_copy_to: "length (copy_to mrsp j src) = length mrsp"
  by (simp add: copy_to_def)

lemma copy_to_other: "i \<noteq> j \<Longrightarrow> copy_to mrsp j src ! i = mrsp ! i"
  by (simp add: copy_to_def)

lemma copy_to_data_length:
  "length (rs_Data (copy_to mrsp j src ! i)) = length (rs_Data (mrsp ! i))"
proof (cases "i = j \<and> j < length mrsp")
  case True
  then show ?thesis by (simp add: copy_to_def length_copy_bytes)
next
  case False
  then show ?thesis by (cases "i = j") (simp_all add: copy_to_def list_update_beyond)
qed

lemma copyRegions_Cons:
  "copyRegions bin (region # regions) offset mrsp =
     copyRegions bin regions (offset + mr_Size region) (region_step bin region offset mrsp)"
  by (simp add: region_step_def Let_def)

lemma region_step_length: "length (region_step bin r off mrsp) = length mrsp"
  by (simp add: region_step_def length_copy_to)

lemma region_step_other: "i \<noteq> mr_Data r \<Longrightarrow> region_step bin r off mrsp ! i = mrsp ! i"
  by (simp add: region_step_def copy_to_other)

lemma region_step_data_length:
  "length (rs_Data (region_step bin r off mrsp ! i)) = length (rs_Data (mrsp ! i))"
  by (simp add: region_step_def copy_to_data_length)

text \<open>
  One region: a buffer of zeros receives the bytes of the reply from \<open>off\<close> on, cut to
  its length, and keeps zeros for the bytes that the reply does not have.
\<close>

lemma region_step_data:
  assumes "0 \<le> off" and "0 \<le> mr_Size r" and "mr_Data r < length mrsp"
    and "rs_Data (mrsp ! mr_Data r) = replicate (nat (mr_Size r)) 0"
  shows "rs_Data (region_step bin r off mrsp ! mr_Data r) =
           take (nat (mr_Size r)) (drop (nat off) bin @ replicate (nat (mr_Size r)) 0)"
proof -
  consider (out) "int (length bin) \<le> off"
    | (partial) "off < int (length bin)" "int (length bin) - off < mr_Size r"
    | (full) "off < int (length bin)" "mr_Size r \<le> int (length bin) - off"
    by linarith
  then show ?thesis
  proof cases
    case out
    with assms show ?thesis by (simp add: region_step_def)
  next
    case partial
    with assms(1) have l: "length bin - nat off < nat (mr_Size r)" by linarith
    from partial assms show ?thesis
      using l by (simp add: region_step_def copy_to_def copy_bytes_def slice_def nat_diff_distrib min_def)
  next
    case full
    with assms(1,2) have l: "nat (mr_Size r) \<le> length bin - nat off" by linarith
    from full assms show ?thesis
      using l by (simp add: region_step_def copy_to_def copy_bytes_def slice_def min_def)
  qed
qed

declare copyRegions.simps(2) [simp del]

lemma copyRegions_length: "length (copyRegions bin rs off mrsp) = length mrsp"
  by (induction rs arbitrary: off mrsp) (simp_all add: copyRegions_Cons region_step_length)

lemma copyRegions_other:
  "i \<notin> mr_Data ` set rs \<Longrightarrow> copyRegions bin rs off mrsp ! i = mrsp ! i"
  by (induction rs arbitrary: off mrsp) (simp_all add: copyRegions_Cons region_step_other)

lemma copyRegions_data_length:
  "length (rs_Data (copyRegions bin rs off mrsp ! i)) = length (rs_Data (mrsp ! i))"
  by (induction rs arbitrary: off mrsp) (simp_all add: copyRegions_Cons region_step_data_length)

text \<open>
  One group: the region after the regions \<open>A\<close> reads the reply at the sum of their
  sizes.
\<close>

lemma copyRegions_region:
  assumes "distinct (map mr_Data (A @ r # B))"
    and "\<forall>x\<in>set (A @ r # B). zeroed mrsp x"
    and "0 \<le> off"
  shows "rs_Data (copyRegions bin (A @ r # B) off mrsp ! mr_Data r) =
           take (nat (mr_Size r))
             (drop (nat (off + sum_list (map mr_Size A))) bin @ replicate (nat (mr_Size r)) 0)"
  using assms
proof (induction A arbitrary: off mrsp)
  case Nil
  then have z: "zeroed mrsp r" and nB: "mr_Data r \<notin> mr_Data ` set B" by auto
  have "rs_Data (copyRegions bin B (off + mr_Size r) (region_step bin r off mrsp) ! mr_Data r)
        = rs_Data (region_step bin r off mrsp ! mr_Data r)"
    by (simp add: copyRegions_other [OF nB])
  also have "\<dots> = take (nat (mr_Size r)) (drop (nat off) bin @ replicate (nat (mr_Size r)) 0)"
    using z Nil.prems(3) by (intro region_step_data) (simp_all add: zeroed_def)
  finally show ?case by (simp add: copyRegions_Cons)
next
  case (Cons a A)
  have za: "zeroed mrsp a" using Cons.prems(2) by simp
  have d: "distinct (map mr_Data (A @ r # B))" using Cons.prems(1) by simp
  have z': "\<forall>x\<in>set (A @ r # B). zeroed (region_step bin a off mrsp) x"
  proof
    fix x assume x: "x \<in> set (A @ r # B)"
    have "mr_Data a \<notin> mr_Data ` set (A @ r # B)" using Cons.prems(1) by auto
    with x have "mr_Data x \<noteq> mr_Data a" by (metis imageI)
    moreover have "zeroed mrsp x" using Cons.prems(2) x by auto
    ultimately show "zeroed (region_step bin a off mrsp) x"
      by (simp add: zeroed_def region_step_length region_step_other)
  qed
  have off': "0 \<le> off + mr_Size a" using Cons.prems(3) za by (simp add: zeroed_def)
  from Cons.IH [OF d z' off'] show ?case
    by (simp add: copyRegions_Cons add.assoc)
qed

text \<open>
  The first loop: the responses, the memory types and the regions that it builds from the
  reads.
\<close>

lemma memTypeOrder_fold: "memTypeOrder mtf reads = fold (addType mtf) reads []"
  by (simp add: memTypeOrder_def addType_def [abs_def])

lemma groupReads_Cons:
  "groupReads mtf (read # rest) mrsp memTypes rg =
     (if rr_Size read < 0 then Inl Panic
      else groupReads mtf rest (mrsp @ [initResponse mtf read])
             (if rg (memTypeOf mtf read) = None then memTypes @ [memTypeOf mtf read] else memTypes)
             (rg(memTypeOf mtf read \<mapsto>
                  regions_of rg (memTypeOf mtf read) @ [mkRegion mtf read (length mrsp)])))"
  by (cases "mtf (rr_RequestAddress read)")
     (simp add: initResponse_def mkRegion_def memTypeOf_def regions_of_def)

declare groupReads.simps(2) [simp del]

lemma groupReads_result:
  assumes "groupReads mtf rest mrsp mts rg = Inr (mrsp', mts', rg')"
    and "dom rg = set mts"
  shows "mrsp' = mrsp @ map (initResponse mtf) rest
       \<and> (\<forall>r\<in>set rest. 0 \<le> rr_Size r)
       \<and> mts' = fold (addType mtf) rest mts
       \<and> (\<forall>m. regions_of rg' m = regions_of rg m @ regionsFrom mtf m (length mrsp) rest)"
  using assms
proof (induction rest arbitrary: mrsp mts rg)
  case Nil
  then show ?case by simp
next
  case (Cons read rest)
  let ?m = "memTypeOf mtf read"
  let ?mts1 = "if rg ?m = None then mts @ [?m] else mts"
  let ?rg1 = "rg(?m \<mapsto> regions_of rg ?m @ [mkRegion mtf read (length mrsp)])"
  from Cons.prems(1) have sz: "0 \<le> rr_Size read"
    by (simp add: groupReads_Cons split: if_splits)
  with Cons.prems(1)
  have run: "groupReads mtf rest (mrsp @ [initResponse mtf read]) ?mts1 ?rg1 = Inr (mrsp', mts', rg')"
    by (simp add: groupReads_Cons)
  have dom1: "dom ?rg1 = set ?mts1"
    using Cons.prems(2) by (auto simp: domIff)
  have mts1: "?mts1 = addType mtf read mts"
    using Cons.prems(2) by (auto simp: addType_def domIff)
  have rg1: "regions_of ?rg1 m = regions_of rg m @ (if ?m = m then [mkRegion mtf read (length mrsp)] else [])" for m
    by (simp add: regions_of_def)
  note IH = Cons.IH [OF run dom1]
  have regs: "regions_of rg' m = regions_of rg m @ regionsFrom mtf m (length mrsp) (read # rest)" for m
  proof -
    from IH have "regions_of rg' m =
        regions_of ?rg1 m @ regionsFrom mtf m (length (mrsp @ [initResponse mtf read])) rest"
      by blast
    also have "\<dots> = (regions_of rg m @ (if ?m = m then [mkRegion mtf read (length mrsp)] else []))
        @ regionsFrom mtf m (Suc (length mrsp)) rest"
      by (simp only: rg1) simp
    finally show ?thesis by simp
  qed
  from IH have "mrsp' = mrsp @ map (initResponse mtf) (read # rest)" by simp
  moreover from IH sz have "\<forall>r\<in>set (read # rest). 0 \<le> rr_Size r" by simp
  moreover from IH have "mts' = fold (addType mtf) (read # rest) mts" by (simp add: mts1)
  ultimately show ?case using regs by blast
qed

lemma regionsFrom_append:
  "regionsFrom mtf m j (xs @ ys) = regionsFrom mtf m j xs @ regionsFrom mtf m (j + length xs) ys"
  by (induction xs arbitrary: j) simp_all

lemma regionsFrom_index:
  "x \<in> set (regionsFrom mtf m j xs) \<Longrightarrow>
     j \<le> mr_Data x \<and> mr_Data x < j + length xs \<and> memTypeOf mtf (xs ! (mr_Data x - j)) = m \<and>
     mr_Size x = rr_Size (xs ! (mr_Data x - j))"
proof (induction xs arbitrary: j)
  case Nil
  then show ?case by simp
next
  case (Cons read rest)
  show ?case
  proof (cases "x \<in> set (regionsFrom mtf m (Suc j) rest)")
    case True
    note a = Cons.IH [OF True]
    then have e: "mr_Data x - j = Suc (mr_Data x - Suc j)" by linarith
    from a show ?thesis by (simp add: e)
  next
    case False
    with Cons.prems have "memTypeOf mtf read = m" "x = mkRegion mtf read j"
      by (auto split: if_splits)
    then show ?thesis by (simp add: mkRegion_def)
  qed
qed

lemma regionsFrom_distinct: "distinct (map mr_Data (regionsFrom mtf m j xs))"
proof (induction xs arbitrary: j)
  case Nil
  then show ?case by simp
next
  case (Cons read rest)
  have "j \<notin> mr_Data ` set (regionsFrom mtf m (Suc j) rest)"
    using regionsFrom_index [of _ mtf m "Suc j" rest] by force
  with Cons.IH [of "Suc j"] show ?case by (simp add: mkRegion_def)
qed

lemma regionsFrom_sizes:
  "sum_list (map mr_Size (regionsFrom mtf m j xs)) =
     sum_list (map rr_Size (filter (\<lambda>read. memTypeOf mtf read = m) xs))"
  by (induction xs arbitrary: j) (simp_all add: mkRegion_def)

lemma addType_distinct: "distinct acc \<Longrightarrow> distinct (fold (addType mtf) xs acc)"
  by (induction xs arbitrary: acc) (simp_all add: addType_def)

lemma addType_set: "set (fold (addType mtf) xs acc) = set acc \<union> memTypeOf mtf ` set xs"
  by (induction xs arbitrary: acc) (auto simp: addType_def)

text \<open>
  The third loop: each reply is binary and is copied to the regions of its group; the
  buffers of the other groups stay as they are.
\<close>

lemma readResponse_ok: "readResponse emu c = (Inr rep, c') \<Longrightarrow> c' = c\<lparr> nread := nread c + 1 \<rparr>"
  by (auto simp: readResponse_def split: option.splits prod.splits)

lemma readReplies_Cons:
  assumes "readReplies emu (m # rest) rg mrsp c = (Inr mrsp', c')"
  shows "\<exists>bin. readResponse emu c = (Inr (Bin bin), c\<lparr> nread := nread c + 1 \<rparr>) \<and>
           readReplies emu rest rg (copyRegions bin (regions_of rg m) 0 mrsp)
             (c\<lparr> nread := nread c + 1 \<rparr>) = (Inr mrsp', c')"
proof (cases "readResponse emu c")
  case (Pair r c2)
  with assms obtain bin where r: "r = Inr (Bin bin)"
    by (auto split: sum.splits reply.splits)
  with Pair have c2: "c2 = c\<lparr> nread := nread c + 1 \<rparr>"
    by (auto dest: readResponse_ok)
  from assms Pair r c2 show ?thesis by simp
qed

declare readReplies.simps(2) [simp del]

lemma owned_other:
  "owned ty rg mts \<Longrightarrow> m \<in> set mts \<Longrightarrow> ty i \<noteq> m \<Longrightarrow> i \<notin> mr_Data ` set (regions_of rg m)"
  by (auto simp: owned_def)

lemma readReplies_frame:
  assumes "readReplies emu mts rg mrsp c = (Inr mrsp', c')" and "owned ty rg mts"
  shows "length mrsp' = length mrsp
       \<and> (\<forall>i. length (rs_Data (mrsp' ! i)) = length (rs_Data (mrsp ! i)))
       \<and> (\<forall>i. ty i \<notin> set mts \<longrightarrow> mrsp' ! i = mrsp ! i)
       \<and> c' = c\<lparr> nread := nread c + length mts \<rparr>"
  using assms
proof (induction mts arbitrary: mrsp c)
  case Nil
  then show ?case by simp
next
  case (Cons m rest)
  from readReplies_Cons [OF Cons.prems(1)] obtain bin
    where run: "readReplies emu rest rg (copyRegions bin (regions_of rg m) 0 mrsp)
                  (c\<lparr> nread := nread c + 1 \<rparr>) = (Inr mrsp', c')"
    by blast
  have own: "owned ty rg rest" using Cons.prems(2) by (auto simp: owned_def)
  note IH = Cons.IH [OF run own]
  have other: "copyRegions bin (regions_of rg m) 0 mrsp ! i = mrsp ! i" if "ty i \<noteq> m" for i
    using owned_other [OF Cons.prems(2) _ that] by (simp add: copyRegions_other)
  from IH have "length mrsp' = length mrsp" by (simp add: copyRegions_length)
  moreover from IH have "\<forall>i. length (rs_Data (mrsp' ! i)) = length (rs_Data (mrsp ! i))"
    by (simp add: copyRegions_data_length)
  moreover from IH other have "\<forall>i. ty i \<notin> set (m # rest) \<longrightarrow> mrsp' ! i = mrsp ! i"
    by simp
  moreover from IH have "c' = c\<lparr> nread := nread c + length (m # rest) \<rparr>" by simp
  ultimately show ?case by blast
qed

lemma readReplies_group:
  assumes "readReplies emu (M1 @ m # M2) rg mrsp c = (Inr mrsp', c')"
    and "groups_ok ty rg (M1 @ m # M2) mrsp"
  shows "\<exists>bin. fst (readResponse emu (c\<lparr> nread := nread c + length M1 \<rparr>)) = Inr (Bin bin) \<and>
           (\<forall>A r B. regions_of rg m = A @ r # B \<longrightarrow>
              rs_Data (mrsp' ! mr_Data r) =
                take (nat (mr_Size r))
                  (drop (nat (sum_list (map mr_Size A))) bin @ replicate (nat (mr_Size r)) 0))"
  using assms
proof (induction M1 arbitrary: mrsp c)
  case Nil
  from Nil.prems(1) have run0: "readReplies emu (m # M2) rg mrsp c = (Inr mrsp', c')" by simp
  from readReplies_Cons [OF run0] obtain bin
    where rd: "readResponse emu c = (Inr (Bin bin), c\<lparr> nread := nread c + 1 \<rparr>)"
      and run: "readReplies emu M2 rg (copyRegions bin (regions_of rg m) 0 mrsp)
                  (c\<lparr> nread := nread c + 1 \<rparr>) = (Inr mrsp', c')"
    by blast
  from Nil.prems(2) have ok: "distinct (m # M2)" "owned ty rg (m # M2)"
      "distinct (map mr_Data (regions_of rg m))" "\<forall>x\<in>set (regions_of rg m). zeroed mrsp x"
    by (simp_all add: groups_ok_def)
  have own2: "owned ty rg M2" using ok(2) by (auto simp: owned_def)
  note frame = readReplies_frame [OF run own2]
  have "rs_Data (mrsp' ! mr_Data r) =
          take (nat (mr_Size r))
            (drop (nat (sum_list (map mr_Size A))) bin @ replicate (nat (mr_Size r)) 0)"
    if split: "regions_of rg m = A @ r # B" for A r B
  proof -
    have "r \<in> set (regions_of rg m)" by (simp add: split)
    with ok(2) have "ty (mr_Data r) = m" by (auto simp: owned_def)
    with ok(1) have "ty (mr_Data r) \<notin> set M2" by simp
    with frame have "mrsp' ! mr_Data r = copyRegions bin (regions_of rg m) 0 mrsp ! mr_Data r"
      by blast
    moreover have "rs_Data (copyRegions bin (A @ r # B) 0 mrsp ! mr_Data r) =
          take (nat (mr_Size r))
            (drop (nat (0 + sum_list (map mr_Size A))) bin @ replicate (nat (mr_Size r)) 0)"
      using ok(3,4) by (intro copyRegions_region) (simp_all add: split)
    ultimately show ?thesis by (simp add: split)
  qed
  with rd show ?case by auto
next
  case (Cons m1 M1)
  from Cons.prems(1)
  have run0: "readReplies emu (m1 # (M1 @ m # M2)) rg mrsp c = (Inr mrsp', c')" by simp
  from readReplies_Cons [OF run0] obtain b1
    where run: "readReplies emu (M1 @ m # M2) rg (copyRegions b1 (regions_of rg m1) 0 mrsp)
                  (c\<lparr> nread := nread c + 1 \<rparr>) = (Inr mrsp', c')"
    by blast
  let ?mrsp2 = "copyRegions b1 (regions_of rg m1) 0 mrsp"
  from Cons.prems(2) have ok: "distinct (m1 # M1 @ m # M2)" "owned ty rg (m1 # M1 @ m # M2)"
      "\<forall>m'\<in>set (M1 @ m # M2). distinct (map mr_Data (regions_of rg m')) \<and>
                    (\<forall>x\<in>set (regions_of rg m'). zeroed mrsp x)"
    by (simp_all add: groups_ok_def)
  have z2: "zeroed ?mrsp2 x" if m': "m' \<in> set (M1 @ m # M2)" and x: "x \<in> set (regions_of rg m')" for m' x
  proof -
    from ok(2) m' x have "ty (mr_Data x) = m'" by (auto simp: owned_def)
    with ok(1) m' have "ty (mr_Data x) \<noteq> m1" by auto
    then have "mr_Data x \<notin> mr_Data ` set (regions_of rg m1)"
      using owned_other [OF ok(2), of m1] by simp
    then have "?mrsp2 ! mr_Data x = mrsp ! mr_Data x" by (rule copyRegions_other)
    moreover from ok(3) m' x have "zeroed mrsp x" by blast
    ultimately show ?thesis by (simp add: zeroed_def copyRegions_length)
  qed
  have ok2: "groups_ok ty rg (M1 @ m # M2) ?mrsp2"
    unfolding groups_ok_def using ok z2 by (auto simp: owned_def)
  from Cons.IH [OF run ok2] show ?case by simp
qed

lemma writeWithDeadline_nread: "writeWithDeadline emu b c = (r, c') \<Longrightarrow> nread c' = nread c"
  by (auto simp: writeWithDeadline_def Let_def split: option.splits)

lemma writeReadCommands_nread: "writeReadCommands emu mts rg c = (r, c') \<Longrightarrow> nread c' = nread c"
proof (induction mts arbitrary: c)
  case Nil
  then show ?case by simp
next
  case (Cons m rest)
  obtain r1 c1 where w: "writeWithDeadline emu (coreReadCommand m (regions_of rg m)) c = (r1, c1)"
    by (cases "writeWithDeadline emu (coreReadCommand m (regions_of rg m)) c") auto
  then have n: "nread c1 = nread c" by (rule writeWithDeadline_nread)
  show ?case
  proof (cases r1)
    case None
    with Cons.prems w have "writeReadCommands emu rest rg c1 = (r, c')" by simp
    from Cons.IH [OF this] n show ?thesis by simp
  next
    case (Some e)
    with Cons.prems w n show ?thesis by auto
  qed
qed

lemma regionsFrom_split:
  assumes "j < length reads"
  shows "regionsFrom mtf (memTypeOf mtf (reads ! j)) 0 reads =
           regionsFrom mtf (memTypeOf mtf (reads ! j)) 0 (take j reads)
           @ mkRegion mtf (reads ! j) j
           # regionsFrom mtf (memTypeOf mtf (reads ! j)) (Suc j) (drop (Suc j) reads)"
proof -
  have "regionsFrom mtf (memTypeOf mtf (reads ! j)) 0 (take j reads @ reads ! j # drop (Suc j) reads) =
           regionsFrom mtf (memTypeOf mtf (reads ! j)) 0 (take j reads)
           @ mkRegion mtf (reads ! j) j
           # regionsFrom mtf (memTypeOf mtf (reads ! j)) (Suc j) (drop (Suc j) reads)"
    using assms by (simp add: regionsFrom_append min_def)
  then show ?thesis
    using id_take_nth_drop [OF assms] by simp
qed

text \<open>
  Claim C6. Let a call of \<open>MultiReadMemory\<close> succeed. Then there is one response for
  each read, and the data buffer of response \<open>j\<close> has exactly \<open>reads[j].Size\<close> bytes.
  The group of read \<open>j\<close> is the \<open>groupIndex\<close>-th memory type in the order of first
  use, and the reply to its \<open>CORE_READ\<close> is the binary reply that the read of that
  number receives in this call. The buffer holds the bytes of that reply from the
  position \<open>groupOffset\<close> on, which is the number of bytes requested by the earlier
  reads of the group; where the reply ends before the buffer does, the rest of the buffer
  is zero.
\<close>

theorem MultiReadMemory_buffers:
  assumes "MultiReadMemory emu mtf reads c = (Inr mrsp, c')"
  shows "length mrsp = length reads \<and>
         (\<forall>j<length reads.
            length (rs_Data (mrsp ! j)) = nat (rr_Size (reads ! j)) \<and>
            (\<exists>bin. fst (readResponse emu (c'\<lparr> nread := nread c + groupIndex mtf reads j \<rparr>)) = Inr (Bin bin) \<and>
                   rs_Data (mrsp ! j) =
                     take (nat (rr_Size (reads ! j)))
                       (drop (groupOffset mtf reads j) bin @ replicate (nat (rr_Size (reads ! j))) 0)))"
proof -
  from assms obtain mrsp0 mts rg c1
    where g: "groupReads mtf reads [] [] Map.empty = Inr (mrsp0, mts, rg)"
      and w: "writeReadCommands emu mts rg c = (None, c1)"
      and r: "readReplies emu mts rg mrsp0 c1 = (Inr mrsp, c')"
    by (auto simp: MultiReadMemory_def split: sum.splits prod.splits option.splits)
  from groupReads_result [OF g]
  have mrsp0: "mrsp0 = map (initResponse mtf) reads"
    and sizes: "\<forall>r\<in>set reads. 0 \<le> rr_Size r"
    and mts: "mts = memTypeOrder mtf reads"
    and regs: "regions_of rg m = regionsFrom mtf m 0 reads" for m
    by (simp_all add: memTypeOrder_fold regions_of_def)
  define ty where "ty i = memTypeOf mtf (reads ! i)" for i
  have own: "owned ty rg mts"
    using regionsFrom_index [of _ mtf _ 0 reads] by (auto simp: owned_def regs ty_def)
  have z: "zeroed mrsp0 x" if "x \<in> set (regions_of rg m)" for m x
  proof -
    from that have i: "mr_Data x < length reads" "mr_Size x = rr_Size (reads ! mr_Data x)"
      using regionsFrom_index [of x mtf m 0 reads] by (simp_all add: regs)
    with sizes have "0 \<le> mr_Size x" by simp
    with i show ?thesis by (simp add: zeroed_def mrsp0 initResponse_def)
  qed
  have dist: "distinct mts"
    unfolding mts memTypeOrder_fold by (rule addType_distinct) simp
  have ok: "groups_ok ty rg mts mrsp0"
    unfolding groups_ok_def using dist own z by (auto simp: regs regionsFrom_distinct)
  note frame = readReplies_frame [OF r own]
  have n1: "nread c1 = nread c" using w by (rule writeReadCommands_nread)
  have len: "length mrsp = length reads" using frame by (simp add: mrsp0)
  have main: "length (rs_Data (mrsp ! j)) = nat (rr_Size (reads ! j)) \<and>
            (\<exists>bin. fst (readResponse emu (c'\<lparr> nread := nread c + groupIndex mtf reads j \<rparr>)) = Inr (Bin bin) \<and>
                   rs_Data (mrsp ! j) =
                     take (nat (rr_Size (reads ! j)))
                       (drop (groupOffset mtf reads j) bin @ replicate (nat (rr_Size (reads ! j))) 0))"
    if j: "j < length reads" for j
  proof -
    let ?m = "memTypeOf mtf (reads ! j)"
    have dl: "length (rs_Data (mrsp ! j)) = nat (rr_Size (reads ! j))"
      using frame j by (simp add: mrsp0 initResponse_def)
    have "?m \<in> set mts"
      using j by (simp add: mts memTypeOrder_fold addType_set)
    then obtain M1 M2 where split: "mts = M1 @ ?m # M2" and first: "?m \<notin> set M1"
      by (auto dest: split_list_first)
    from first have "\<forall>x\<in>set M1. x \<noteq> ?m" by auto
    then have gi: "groupIndex mtf reads j = length M1"
      by (simp add: groupIndex_def mts [symmetric] split takeWhile_append2)
    from readReplies_group [OF r [unfolded split] ok [unfolded split]] obtain bin
      where rd: "fst (readResponse emu (c1\<lparr> nread := nread c1 + length M1 \<rparr>)) = Inr (Bin bin)"
        and data: "\<And>A r B. regions_of rg ?m = A @ r # B \<Longrightarrow>
              rs_Data (mrsp ! mr_Data r) =
                take (nat (mr_Size r))
                  (drop (nat (sum_list (map mr_Size A))) bin @ replicate (nat (mr_Size r)) 0)"
      by blast
    have c1: "c1\<lparr> nread := nread c1 + length M1 \<rparr> = c'\<lparr> nread := nread c + groupIndex mtf reads j \<rparr>"
      using frame by (simp add: n1 gi)
    have "rs_Data (mrsp ! mr_Data (mkRegion mtf (reads ! j) j)) =
            take (nat (mr_Size (mkRegion mtf (reads ! j) j)))
              (drop (nat (sum_list (map mr_Size (regionsFrom mtf ?m 0 (take j reads))))) bin
               @ replicate (nat (mr_Size (mkRegion mtf (reads ! j) j))) 0)"
      by (rule data) (simp add: regs regionsFrom_split [OF j])
    then have "rs_Data (mrsp ! j) =
            take (nat (rr_Size (reads ! j)))
              (drop (groupOffset mtf reads j) bin @ replicate (nat (rr_Size (reads ! j))) 0)"
      by (simp add: mkRegion_def regionsFrom_sizes groupOffset_def)
    with dl rd c1 show ?thesis by auto
  qed
  from len main show ?thesis by blast
qed

theorem MultiReadMemory_buffers_witness:
  "fst (MultiReadMemory emu_three_bytes wram_only two_reads new_client) =
     Inr [\<lparr> rs_RequestAddress = \<lparr> Address = 0x10, AddressSpace = AddressSpace_FxPakPro,
                                     MemoryMapping = MemoryMapping_Unknown \<rparr>,
             rs_DeviceAddress = \<lparr> Address = 0xF50010, AddressSpace = AddressSpace_FxPakPro,
                                    MemoryMapping = MemoryMapping_Unknown \<rparr>,
             rs_Data = [1, 2] \<rparr>,
          \<lparr> rs_RequestAddress = \<lparr> Address = 0x20, AddressSpace = AddressSpace_FxPakPro,
                                     MemoryMapping = MemoryMapping_Unknown \<rparr>,
             rs_DeviceAddress = \<lparr> Address = 0xF50020, AddressSpace = AddressSpace_FxPakPro,
                                    MemoryMapping = MemoryMapping_Unknown \<rparr>,
             rs_Data = [3, 0, 0, 0] \<rparr>]
   \<and> (\<exists>mrsp c'. MultiReadMemory emu_three_bytes wram_only two_reads new_client = (Inr mrsp, c') \<and>
         length mrsp = length two_reads \<and>
         (\<forall>j<length two_reads. length (rs_Data (mrsp ! j)) = nat (rr_Size (two_reads ! j))))"
proof -
  have ev: "fst (MultiReadMemory emu_three_bytes wram_only two_reads new_client) =
     Inr [\<lparr> rs_RequestAddress = \<lparr> Address = 0x10, AddressSpace = AddressSpace_FxPakPro,
                                     MemoryMapping = MemoryMapping_Unknown \<rparr>,
             rs_DeviceAddress = \<lparr> Address = 0xF50010, AddressSpace = AddressSpace_FxPakPro,
                                    MemoryMapping = MemoryMapping_Unknown \<rparr>,
             rs_Data = [1, 2] \<rparr>,
          \<lparr> rs_RequestAddress = \<lparr> Address = 0x20, AddressSpace = AddressSpace_FxPakPro,
                                     MemoryMapping = MemoryMapping_Unknown \<rparr>,
             rs_DeviceAddress = \<lparr> Address = 0xF50020, AddressSpace = AddressSpace_FxPakPro,
                                    MemoryMapping = MemoryMapping_Unknown \<rparr>,
             rs_Data = [3, 0, 0, 0] \<rparr>]"
    by (simp add: MultiReadMemory_def groupReads.simps wram_only_def two_reads_def
          writeWithDeadline_def regions_of_def readReplies.simps readResponse_def
          emu_three_bytes_def new_client_def parseResponse_def ReadFull_def binary_Read_uint32_def
          copyRegions.simps copy_to_def copy_bytes_def slice_def Let_def eval_nat_numeral)
  obtain r c' where run: "MultiReadMemory emu_three_bytes wram_only two_reads new_client = (r, c')"
    by (cases "MultiReadMemory emu_three_bytes wram_only two_reads new_client") auto
  with ev obtain mrsp where r: "r = Inr mrsp" by simp
  from MultiReadMemory_buffers [OF run [unfolded r]]
  have "length mrsp = length two_reads \<and>
        (\<forall>j<length two_reads. length (rs_Data (mrsp ! j)) = nat (rr_Size (two_reads ! j)))"
    by blast
  with run r have "\<exists>mrsp c'. MultiReadMemory emu_three_bytes wram_only two_reads new_client = (Inr mrsp, c') \<and>
         length mrsp = length two_reads \<and>
         (\<forall>j<length two_reads. length (rs_Data (mrsp ! j)) = nat (rr_Size (two_reads ! j)))"
    by blast
  with ev show ?thesis by blast
qed

end
